theory Spec2Isabelle
  imports Complex_Main "HOL-Library.AList" "HOL-Library.Log_Nat"
begin

section \<open>The engine telemetry model of \<^verbatim>\<open>script.py\<close>\<close>

text \<open>
  The development embeds the two classes of \<^verbatim>\<open>script.py\<close> that carry the simulation:
  \<^verbatim>\<open>SimulatedSensor\<close> (one sensor channel) and \<^verbatim>\<open>VirtualCarSimulator\<close> (the engine
  state model with its recomputation pass \<^verbatim>\<open>_update_sensors\<close>).

  Numbers. A Python \<^verbatim>\<open>float\<close> is a real number or NaN (type \<open>pyfloat\<close>); arithmetic and
  \<^verbatim>\<open>np.clip\<close> give NaN as soon as an operand is NaN, and every comparison with NaN is
  false. Python's \<^verbatim>\<open>int\<close> is \<^typ>\<open>int\<close>. The two control inputs keep the distinction
  between the two kinds of number, because \<^verbatim>\<open>np.clip\<close> returns a NumPy integer for an integer
  argument and a NumPy float for a float argument, and a Python list accepts only the
  former as an index. An infinite argument is not a case of its own: \<^verbatim>\<open>np.clip\<close> returns the
  bound for it, as for a finite argument beyond the bound.

  Rounding. The recomputation pass is modelled in exact arithmetic on the numbers. The
  operations of \<^verbatim>\<open>read\<close>, whose result is rounded to two decimals, are modelled as the
  operations on doubles: \<^verbatim>\<open>read\<close> takes the fields of the channel and the value drawn to the
  nearest double (53 significant bits, ties to even), and every operation rounds its exact
  result likewise. The exponent of a double is not bounded here, so overflow to an
  infinity and the coarser rounding of subnormal numbers are outside the model.
\<close>

subsection \<open>Floats\<close>

datatype pyfloat = Num real | NaN

instantiation pyfloat :: "{plus, minus, uminus, times, inverse, ord}"
begin

fun plus_pyfloat :: "pyfloat \<Rightarrow> pyfloat \<Rightarrow> pyfloat" where
  "plus_pyfloat (Num a) (Num b) = Num (a + b)"
| "plus_pyfloat _ _ = NaN"

fun minus_pyfloat :: "pyfloat \<Rightarrow> pyfloat \<Rightarrow> pyfloat" where
  "minus_pyfloat (Num a) (Num b) = Num (a - b)"
| "minus_pyfloat _ _ = NaN"

fun uminus_pyfloat :: "pyfloat \<Rightarrow> pyfloat" where
  "uminus_pyfloat (Num a) = Num (- a)"
| "uminus_pyfloat NaN = NaN"

fun times_pyfloat :: "pyfloat \<Rightarrow> pyfloat \<Rightarrow> pyfloat" where
  "times_pyfloat (Num a) (Num b) = Num (a * b)"
| "times_pyfloat _ _ = NaN"

text \<open>Every division of the program is by a literal that is not zero.\<close>

fun divide_pyfloat :: "pyfloat \<Rightarrow> pyfloat \<Rightarrow> pyfloat" where
  "divide_pyfloat (Num a) (Num b) = (if b = 0 then NaN else Num (a / b))"
| "divide_pyfloat _ _ = NaN"

fun inverse_pyfloat :: "pyfloat \<Rightarrow> pyfloat" where
  "inverse_pyfloat (Num a) = (if a = 0 then NaN else Num (1 / a))"
| "inverse_pyfloat NaN = NaN"

fun less_eq_pyfloat :: "pyfloat \<Rightarrow> pyfloat \<Rightarrow> bool" where
  "less_eq_pyfloat (Num a) (Num b) = (a \<le> b)"
| "less_eq_pyfloat _ _ = False"

fun less_pyfloat :: "pyfloat \<Rightarrow> pyfloat \<Rightarrow> bool" where
  "less_pyfloat (Num a) (Num b) = (a < b)"
| "less_pyfloat _ _ = False"

instance ..

end

text \<open>
  \<^verbatim>\<open>np.clip(a, lo, hi)\<close> is \<^verbatim>\<open>minimum(maximum(a, lo), hi)\<close>, and NaN as soon as one of the
  three is NaN.
\<close>

fun clip_float :: "pyfloat \<Rightarrow> pyfloat \<Rightarrow> pyfloat \<Rightarrow> pyfloat" where
  "clip_float (Num a) (Num lo) (Num hi) = Num (min (max a lo) hi)"
| "clip_float _ _ _ = NaN"

subsection \<open>Numbers and errors\<close>

datatype pynum = PyInt int | PyFloat pyfloat

fun num :: "pynum \<Rightarrow> pyfloat" where
  "num (PyInt i) = Num (of_int i)"
| "num (PyFloat x) = x"

datatype error = KeyError | TypeError | IndexError

text \<open>\<^verbatim>\<open>np.clip\<close> with integer bounds; the kind of the argument is kept.\<close>

fun clip :: "pynum \<Rightarrow> int \<Rightarrow> int \<Rightarrow> pynum" where
  "clip (PyInt i) lo hi = PyInt (min (max i lo) hi)"
| "clip (PyFloat x) lo hi = PyFloat (clip_float x (Num (of_int lo)) (Num (of_int hi)))"

text \<open>
  Indexing a Python list: a float index raises \<^verbatim>\<open>TypeError\<close>, an integer index out of
  \<open>[-len, len)\<close> raises \<^verbatim>\<open>IndexError\<close>, a negative index counts from the end.
\<close>

fun list_index :: "'a list \<Rightarrow> pynum \<Rightarrow> error + 'a" where
  "list_index xs (PyFloat x) = Inl TypeError"
| "list_index xs (PyInt i) =
     (if 0 \<le> i \<and> i < int (length xs) then Inr (xs ! nat i)
      else if - int (length xs) \<le> i \<and> i < 0 then Inr (xs ! nat (int (length xs) + i))
      else Inl IndexError)"

subsection \<open>Sensor channels\<close>

text \<open>The dataclass \<^verbatim>\<open>SimulatedSensor\<close>; the field \<^verbatim>\<open>value\<close> is called \<open>val\<close> here.\<close>

record SimulatedSensor =
  name :: string
  val :: pyfloat
  min_value :: pyfloat
  max_value :: pyfloat
  noise_level :: pyfloat

subsection \<open>The engine state model\<close>

text \<open>
  \<^verbatim>\<open>self.sensors\<close> is a dictionary; it is an association list here, in insertion order,
  which is the order \<^verbatim>\<open>read_all_sensors\<close> iterates in.
\<close>

record VirtualCarSimulator =
  sensors :: "(string \<times> SimulatedSensor) list"
  throttle :: pynum
  gear :: pynum
  mileage :: pyfloat

definition mk_sensor :: "string \<Rightarrow> real \<Rightarrow> real \<Rightarrow> real \<Rightarrow> real \<Rightarrow> SimulatedSensor" where
  "mk_sensor n v lo hi nl =
     \<lparr>name = n, val = Num v, min_value = Num lo, max_value = Num hi, noise_level = Num nl\<rparr>"

text \<open>\<^verbatim>\<open>VirtualCarSimulator.__init__\<close>.\<close>

definition init :: VirtualCarSimulator where
  "init =
     \<lparr>sensors =
        [(''RPM'', mk_sensor ''RPM'' 800 0 7000 50),
         (''SPEED'', mk_sensor ''SPEED'' 0 0 200 2),
         (''COOLANT_TEMP'', mk_sensor ''COOLANT_TEMP'' 85 60 120 1),
         (''ENGINE_LOAD'', mk_sensor ''ENGINE_LOAD'' 20 0 100 2),
         (''THROTTLE_POS'', mk_sensor ''THROTTLE_POS'' 15 0 100 1),
         (''INTAKE_TEMP'', mk_sensor ''INTAKE_TEMP'' 25 20 80 (1/2)),
         (''MAF'', mk_sensor ''MAF'' 5 0 200 (1/2)),
         (''FUEL_RATE'', mk_sensor ''FUEL_RATE'' (8/10) 0 20 (1/10)),
         (''OIL_TEMP'', mk_sensor ''OIL_TEMP'' 80 60 120 1),
         (''OIL_PRESSURE'', mk_sensor ''OIL_PRESSURE'' 40 15 80 2)],
      throttle = PyInt 0,
      gear = PyInt 3,
      mileage = Num 45230\<rparr>"

subsection \<open>Methods as state transformers that may raise\<close>

text \<open>
  A method takes the object and returns the object as the method leaves it, together with
  either its result or the exception it raised. An exception leaves the assignments made
  before it in place.
\<close>

type_synonym 'a action = "VirtualCarSimulator \<Rightarrow> (error + 'a) \<times> VirtualCarSimulator"

definition ret :: "'a \<Rightarrow> 'a action" where
  "ret x = (\<lambda>s. (Inr x, s))"

definition bind :: "'a action \<Rightarrow> ('a \<Rightarrow> 'b action) \<Rightarrow> 'b action" where
  "bind m f = (\<lambda>s. case m s of (Inl e, s') \<Rightarrow> (Inl e, s') | (Inr x, s') \<Rightarrow> f x s')"

text \<open>Reading an attribute of \<^verbatim>\<open>self\<close>.\<close>

definition get :: "(VirtualCarSimulator \<Rightarrow> 'a) \<Rightarrow> 'a action" where
  "get f = (\<lambda>s. (Inr (f s), s))"

text \<open>Lifting a pure computation that may raise.\<close>

definition lift :: "error + 'a \<Rightarrow> 'a action" where
  "lift r = (\<lambda>s. (r, s))"

text \<open>\<^verbatim>\<open>self.sensors[k].value\<close>, read and assigned; a missing key raises \<^verbatim>\<open>KeyError\<close>.\<close>

definition get_value :: "string \<Rightarrow> pyfloat action" where
  "get_value k = (\<lambda>s. case map_of (sensors s) k of
                         None \<Rightarrow> (Inl KeyError, s)
                       | Some c \<Rightarrow> (Inr (val c), s))"

text \<open>The dictionary after \<^verbatim>\<open>self.sensors[k].value = v\<close>: the entry of \<open>k\<close> has the value \<open>v\<close>.\<close>

definition put :: "string \<Rightarrow> pyfloat \<Rightarrow> (string \<times> SimulatedSensor) list \<Rightarrow> (string \<times> SimulatedSensor) list" where
  "put k v xs = AList.map_entry k (\<lambda>c. c\<lparr>val := v\<rparr>) xs"

definition set_value :: "string \<Rightarrow> pyfloat \<Rightarrow> unit action" where
  "set_value k v = (\<lambda>s. case map_of (sensors s) k of
                           None \<Rightarrow> (Inl KeyError, s)
                         | Some c \<Rightarrow> (Inr (), s\<lparr>sensors := put k v (sensors s)\<rparr>))"

text \<open>\<^verbatim>\<open>self.mileage += d\<close>.\<close>

definition add_mileage :: "pyfloat \<Rightarrow> unit action" where
  "add_mileage d = (\<lambda>s. (Inr (), s\<lparr>mileage := mileage s + d\<rparr>))"

definition gear_ratios :: "real list" where
  "gear_ratios = [0, 35/10, 25/10, 18/10, 13/10, 1, 8/10]"

text \<open>
  \<^verbatim>\<open>VirtualCarSimulator._update_sensors\<close>: one \<open>bind\<close> for each read of a channel, each
  assignment and the list lookup, in the order in which Python evaluates them (an
  augmented assignment \<^verbatim>\<open>x.value += e\<close> reads \<^verbatim>\<open>x.value\<close>, evaluates \<open>e\<close>, then assigns).
  \<^verbatim>\<open>self.throttle\<close>, which the pass never assigns, is read once.
\<close>

definition update_sensors :: "unit action" where
  "update_sensors =
     bind (get throttle) (\<lambda>thr.
     let target_rpm = Num 800 + num thr * Num 50 in
     bind (get_value ''RPM'') (\<lambda>rpm0.
     bind (get_value ''RPM'') (\<lambda>rpm0'.
     bind (set_value ''RPM'' (rpm0 + (target_rpm - rpm0') * Num (1/10))) (\<lambda>_.
     bind (get_value ''RPM'') (\<lambda>rpm1.
     bind (get gear) (\<lambda>g.
     bind (lift (list_index gear_ratios g)) (\<lambda>ratio.
     let speed = (rpm1 * Num ratio) / Num 60 in
     bind (set_value ''SPEED'' speed) (\<lambda>_.
     bind (set_value ''ENGINE_LOAD'' (num thr * Num (7/10))) (\<lambda>_.
     bind (get_value ''RPM'') (\<lambda>rpm2.
     let heat_gen = (rpm2 / Num 1000) * Num (2/10) + num thr * Num (5/100) in
     bind (get_value ''COOLANT_TEMP'') (\<lambda>ct0.
     let cooling = (ct0 - Num 85) * Num (1/10) in
     bind (get_value ''COOLANT_TEMP'') (\<lambda>ct1.
     bind (set_value ''COOLANT_TEMP'' (ct1 + (heat_gen - cooling))) (\<lambda>_.
     bind (get_value ''COOLANT_TEMP'') (\<lambda>ct2.
     bind (get_value ''OIL_TEMP'') (\<lambda>ot0.
     let temp_diff = ct2 - ot0 in
     bind (get_value ''OIL_TEMP'') (\<lambda>ot1.
     bind (set_value ''OIL_TEMP'' (ot1 + temp_diff * Num (5/100))) (\<lambda>_.
     bind (get_value ''RPM'') (\<lambda>rpm3.
     let base_pressure = (rpm3 / Num 1000) * Num 8 + Num 20 in
     bind (get_value ''OIL_TEMP'') (\<lambda>ot2.
     let temp_factor = Num 1 - ((ot2 - Num 80) / Num 200) in
     bind (set_value ''OIL_PRESSURE''
             (base_pressure * clip_float temp_factor (Num (1/2)) (Num (3/2)))) (\<lambda>_.
     bind (get_value ''RPM'') (\<lambda>rpm4.
     let fuel = (num thr / Num 100) * Num 12 + (rpm4 / Num 1000) * Num (8/10) in
     bind (set_value ''FUEL_RATE'' fuel) (\<lambda>_.
     bind (get_value ''SPEED'') (\<lambda>sp0.
     if sp0 > Num 0
     then bind (get_value ''SPEED'') (\<lambda>sp1. add_mileage (sp1 / Num 3600))
     else ret ())))))))))))))))))))))))"

text \<open>\<^verbatim>\<open>set_throttle\<close> and \<^verbatim>\<open>set_gear\<close>.\<close>

definition set_throttle :: "pynum \<Rightarrow> unit action" where
  "set_throttle t = (\<lambda>s. update_sensors (s\<lparr>throttle := clip t 0 100\<rparr>))"

definition set_gear :: "pynum \<Rightarrow> unit action" where
  "set_gear g = (\<lambda>s. update_sensors (s\<lparr>gear := clip g 1 6\<rparr>))"

subsection \<open>Observations of a model\<close>

text \<open>The stored pre-noise value of channel \<open>k\<close>, if the channel exists.\<close>

definition true_value :: "VirtualCarSimulator \<Rightarrow> string \<Rightarrow> pyfloat option" where
  "true_value s k = map_option val (map_of (sensors s) k)"

text \<open>
  Channel \<open>k\<close> exists and its stored value lies within its bounds, as Python compares:
  NaN lies within no bounds.
\<close>

definition in_bounds :: "VirtualCarSimulator \<Rightarrow> string \<Rightarrow> bool" where
  "in_bounds s k =
     (case map_of (sensors s) k of
        None \<Rightarrow> False
      | Some c \<Rightarrow> min_value c \<le> val c \<and> val c \<le> max_value c)"

text \<open>A stored value that is a number within \<open>[lo, hi]\<close>.\<close>

fun value_in :: "real \<Rightarrow> real \<Rightarrow> pyfloat option \<Rightarrow> bool" where
  "value_in lo hi (Some (Num r)) = (lo \<le> r \<and> r \<le> hi)"
| "value_in lo hi (Some NaN) = False"
| "value_in lo hi None = False"

text \<open>The keys of the dictionary with, for each channel, every field but the value.\<close>

definition layout :: "VirtualCarSimulator \<Rightarrow> (string \<times> string \<times> pyfloat \<times> pyfloat \<times> pyfloat) list" where
  "layout s = map (\<lambda>(k, c). (k, name c, min_value c, max_value c, noise_level c)) (sensors s)"

text \<open>The keys with the stored values, and all that a recomputation pass reads.\<close>

definition channel_values :: "VirtualCarSimulator \<Rightarrow> (string \<times> pyfloat) list" where
  "channel_values s = map (\<lambda>(k, c). (k, val c)) (sensors s)"

definition core :: "VirtualCarSimulator \<Rightarrow> (string \<times> pyfloat) list \<times> pynum \<times> pynum \<times> pyfloat" where
  "core s = (channel_values s, throttle s, gear s, mileage s)"

text \<open>The channels the recomputation pass reads or assigns.\<close>

definition used_keys :: "string list" where
  "used_keys = [''RPM'', ''SPEED'', ''ENGINE_LOAD'', ''COOLANT_TEMP'', ''OIL_TEMP'',
                ''OIL_PRESSURE'', ''FUEL_RATE'']"

definition keys_present :: "VirtualCarSimulator \<Rightarrow> bool" where
  "keys_present s = list_all (\<lambda>k. k \<in> set (map fst (sensors s))) used_keys"

text \<open>The stored gear is an integer that indexes the table of seven gear ratios.\<close>

fun gear_index_ok :: "pynum \<Rightarrow> bool" where
  "gear_index_ok (PyInt i) = (- 7 \<le> i \<and> i < 7)"
| "gear_index_ok (PyFloat x) = False"

subsection \<open>Calls and call sequences\<close>

text \<open>
  A tick is one call of a setter. A sequence of calls is run from left to right; the
  result of every call is recorded, and the run goes on after a call that raised, as it
  does for a caller that catches the exception (a caller that does not sees a prefix).
\<close>

datatype call = SetThrottle pynum | SetGear pynum

fun exec :: "call \<Rightarrow> unit action" where
  "exec (SetThrottle t) = set_throttle t"
| "exec (SetGear g) = set_gear g"

fun run :: "call list \<Rightarrow> VirtualCarSimulator \<Rightarrow> (error + unit) list \<times> VirtualCarSimulator" where
  "run [] s = ([], s)"
| "run (c # cs) s =
     (case exec c s of (r, s') \<Rightarrow> (case run cs s' of (rs, s'') \<Rightarrow> (r # rs, s'')))"

subsection \<open>Doubles\<close>

text \<open>\<open>pow2 e\<close> is \<open>2\<close> to the power \<open>e\<close>, for an integer \<open>e\<close> of either sign.\<close>

definition pow2 :: "int \<Rightarrow> real" where
  "pow2 e = (if 0 \<le> e then 2 ^ nat e else 1 / 2 ^ nat (- e))"

text \<open>
  The binary exponent of a positive real \<open>x\<close>: the \<open>e\<close> with \<open>2 ^ e \<le> x < 2 ^ (e + 1)\<close>, from
  the number of bits of \<open>\<lfloor>x\<rfloor>\<close> when \<open>x \<ge> 1\<close> and of \<open>\<lceil>1 / x\<rceil> - 1\<close> otherwise.
\<close>

definition expo :: "real \<Rightarrow> int" where
  "expo x =
     (if 1 \<le> x then int (floorlog 2 (nat \<lfloor>x\<rfloor>)) - 1
      else - int (floorlog 2 (nat (\<lceil>1 / x\<rceil> - 1))))"

text \<open>Rounding to the nearest integer, ties to the even one (\<^verbatim>\<open>np.rint\<close>).\<close>

definition rint :: "real \<Rightarrow> int" where
  "rint x =
     (let f = \<lfloor>x\<rfloor>; d = x - of_int f
      in if d < 1/2 then f else if 1/2 < d then f + 1 else if even f then f else f + 1)"

text \<open>
  The double nearest to a real, ties to even: a multiple of the quantum \<open>2 ^ (e - 52)\<close>,
  where \<open>e\<close> is the binary exponent of the real.
\<close>

definition to_double :: "real \<Rightarrow> real" where
  "to_double x =
     (if x = 0 then 0
      else let q = pow2 (expo \<bar>x\<bar> - 52) in of_int (rint (x / q)) * q)"

text \<open>A function of one real, on floats: NaN stays NaN.\<close>

fun lift1 :: "(real \<Rightarrow> real) \<Rightarrow> pyfloat \<Rightarrow> pyfloat" where
  "lift1 f (Num a) = Num (f a)"
| "lift1 f NaN = NaN"

definition rnd :: "pyfloat \<Rightarrow> pyfloat" where
  "rnd x = lift1 to_double x"

text \<open>The four operations on doubles, of operands that are doubles, and \<^verbatim>\<open>np.rint\<close>.\<close>

definition dadd :: "pyfloat \<Rightarrow> pyfloat \<Rightarrow> pyfloat" where
  "dadd x y = rnd (x + y)"

definition dsub :: "pyfloat \<Rightarrow> pyfloat \<Rightarrow> pyfloat" where
  "dsub x y = rnd (x - y)"

definition dmul :: "pyfloat \<Rightarrow> pyfloat \<Rightarrow> pyfloat" where
  "dmul x y = rnd (x * y)"

definition ddiv :: "pyfloat \<Rightarrow> pyfloat \<Rightarrow> pyfloat" where
  "ddiv x y = rnd (x / y)"

definition frint :: "pyfloat \<Rightarrow> pyfloat" where
  "frint x = lift1 (\<lambda>a. of_int (rint a)) x"

subsection \<open>Reading a channel\<close>

text \<open>
  \<^verbatim>\<open>read\<close> uses two things outside the model: the random generator and the clock. The
  world holds the car, the values \<^verbatim>\<open>random.random()\<close> will return (each in \<open>[0, 1)\<close>) and
  the strings \<^verbatim>\<open>datetime.now().isoformat()\<close> will return; a draw or a look at the clock
  consumes the first one.
\<close>

record world =
  car :: VirtualCarSimulator
  rng :: "nat \<Rightarrow> real"
  clock :: "nat \<Rightarrow> string"

text \<open>\<^verbatim>\<open>random.uniform(a, b)\<close> is \<^verbatim>\<open>a + (b - a) * random()\<close>, of doubles \<open>a\<close> and \<open>b\<close>.\<close>

definition random_uniform :: "pyfloat \<Rightarrow> pyfloat \<Rightarrow> world \<Rightarrow> pyfloat \<times> world" where
  "random_uniform a b w =
     (dadd a (dmul (dsub b a) (rnd (Num (rng w 0)))), w\<lparr>rng := (\<lambda>n. rng w (Suc n))\<rparr>)"

definition now_isoformat :: "world \<Rightarrow> string \<times> world" where
  "now_isoformat w = (clock w 0, w\<lparr>clock := (\<lambda>n. clock w (Suc n))\<rparr>)"

text \<open>\<^verbatim>\<open>round(x, 2)\<close> of a NumPy float \<open>x\<close>: \<^verbatim>\<open>rint(x * 100) / 100\<close>, on doubles.\<close>

definition round2 :: "pyfloat \<Rightarrow> pyfloat" where
  "round2 x = ddiv (frint (dmul x (Num 100))) (Num 100)"

text \<open>
  \<^verbatim>\<open>get_unit\<close>: the table and the default \<^verbatim>\<open>''\<close>. The degree sign is written as its two
  UTF-8 bytes.
\<close>

definition degree_C :: string where
  "degree_C = [char_of (194::nat), char_of (176::nat), CHR ''C'']"

definition units :: "(string \<times> string) list" where
  "units =
     [(''RPM'', ''rpm''),
      (''SPEED'', ''km/h''),
      (''COOLANT_TEMP'', degree_C),
      (''ENGINE_LOAD'', ''%''),
      (''THROTTLE_POS'', ''%''),
      (''INTAKE_TEMP'', degree_C),
      (''MAF'', ''g/s''),
      (''FUEL_RATE'', ''L/h''),
      (''OIL_TEMP'', degree_C),
      (''OIL_PRESSURE'', ''psi'')]"

definition get_unit :: "SimulatedSensor \<Rightarrow> string" where
  "get_unit self = (case map_of units (name self) of None \<Rightarrow> [] | Some u \<Rightarrow> u)"

text \<open>The dictionary \<^verbatim>\<open>read\<close> returns; its keys \<^verbatim>\<open>value\<close> and \<^verbatim>\<open>unit\<close> are \<open>rval\<close> and \<open>unit_label\<close>.\<close>

record Reading =
  command :: string
  rval :: pyfloat
  unit_label :: string
  timestamp :: string

definition read :: "SimulatedSensor \<Rightarrow> world \<Rightarrow> Reading \<times> world" where
  "read self w =
     (case random_uniform (- rnd (noise_level self)) (rnd (noise_level self)) w of (noise, w1) \<Rightarrow>
      let v = clip_float (dadd (rnd (val self)) noise)
                (rnd (min_value self)) (rnd (max_value self)) in
      case now_isoformat w1 of (ts, w2) \<Rightarrow>
        (\<lparr>command = name self, rval = round2 v, unit_label = get_unit self, timestamp = ts\<rparr>, w2))"

text \<open>\<^verbatim>\<open>read_all_sensors\<close>: the comprehension over \<^verbatim>\<open>self.sensors.items()\<close>.\<close>

fun read_items :: "(string \<times> SimulatedSensor) list \<Rightarrow> world \<Rightarrow> (string \<times> Reading) list \<times> world" where
  "read_items [] w = ([], w)"
| "read_items ((k, sensor) # rest) w =
     (case read sensor w of (r, w1) \<Rightarrow>
      case read_items rest w1 of (rs, w2) \<Rightarrow> ((k, r) # rs, w2))"

definition read_all_sensors :: "world \<Rightarrow> (string \<times> Reading) list \<times> world" where
  "read_all_sensors w = read_items (sensors (car w)) w"

subsection \<open>Well-typed calls and the operating range\<close>

text \<open>
  A call whose argument has a kind the parameter admits: any number for the throttle, an
  integer for the gear (\<^verbatim>\<open>set_throttle(self, throttle: float)\<close>, \<^verbatim>\<open>set_gear(self, gear: int)\<close>).
\<close>

fun well_typed :: "call \<Rightarrow> bool" where
  "well_typed (SetThrottle t) = True"
| "well_typed (SetGear (PyInt i)) = True"
| "well_typed (SetGear (PyFloat x)) = False"

text \<open>
  A call that does not pass NaN for the throttle. A NaN gear is stored, and the lookup in
  the table of gear ratios then raises before any value computed from the gear is stored.
\<close>

fun nan_free :: "call \<Rightarrow> bool" where
  "nan_free (SetThrottle t) = (num t \<noteq> NaN)"
| "nan_free (SetGear g) = True"

text \<open>The channels whose stored value every call keeps within its bounds.\<close>

definition bounded_channels :: "string list" where
  "bounded_channels = [''RPM'', ''ENGINE_LOAD'', ''THROTTLE_POS'', ''INTAKE_TEMP'', ''MAF'',
                       ''FUEL_RATE'', ''OIL_PRESSURE'']"

text \<open>
  The operating range: the channels are those of construction, with their bounds; the
  throttle is a number in \<open>[0, 100]\<close>; the stored values of the channels of the pass are
  numbers, the RPM value in \<open>[800, 5800]\<close>, the speed not negative, the two temperatures
  between their values at construction and 146.6, the oil pressure in \<open>[15, 80]\<close>, the
  engine load in \<open>[0, 70]\<close> and the fuel rate in \<open>[0, 20]\<close>; the channels that no pass
  assigns are within their bounds.
\<close>

definition op_inv :: "VirtualCarSimulator \<Rightarrow> bool" where
  "op_inv s =
     (layout s = layout init \<and>
      value_in 0 100 (Some (num (throttle s))) \<and>
      value_in 800 5800 (true_value s ''RPM'') \<and>
      value_in 0 339 (true_value s ''SPEED'') \<and>
      value_in 85 (1466/10) (true_value s ''COOLANT_TEMP'') \<and>
      value_in 80 (1466/10) (true_value s ''OIL_TEMP'') \<and>
      value_in 15 80 (true_value s ''OIL_PRESSURE'') \<and>
      value_in 0 70 (true_value s ''ENGINE_LOAD'') \<and>
      value_in 0 20 (true_value s ''FUEL_RATE'') \<and>
      in_bounds s ''THROTTLE_POS'' \<and> in_bounds s ''INTAKE_TEMP'' \<and> in_bounds s ''MAF'')"

subsection \<open>Properties of actions\<close>

text \<open>An action keeps an observation \<open>f\<close> when \<open>f\<close> is the same before and after it.\<close>

definition keeps :: "(VirtualCarSimulator \<Rightarrow> 'b) \<Rightarrow> 'a action \<Rightarrow> bool" where
  "keeps f m = (\<forall>s. f (snd (m s)) = f s)"

text \<open>
  A float \<open>y\<close> that is not below \<open>x\<close>: both are numbers and \<open>x \<le> y\<close>, or both are NaN. An
  action under which the mileage does not decrease.
\<close>

definition not_below :: "pyfloat \<Rightarrow> pyfloat \<Rightarrow> bool" where
  "not_below x y = (x \<le> y \<or> (x = NaN \<and> y = NaN))"

definition grows :: "'a action \<Rightarrow> bool" where
  "grows m = (\<forall>s. not_below (mileage s) (mileage (snd (m s))))"

text \<open>
  An action is determined by the core of the state: from two states with the same core it
  gives the same result, or raises the same exception, and leaves states with the same core.
\<close>

definition determined :: "'a action \<Rightarrow> bool" where
  "determined m =
     (\<forall>s1 s2. core s1 = core s2 \<longrightarrow>
        fst (m s1) = fst (m s2) \<and> core (snd (m s1)) = core (snd (m s2)))"

text \<open>Calling \<^verbatim>\<open>set_throttle(0)\<close> \<open>n\<close> times, and the stored RPM value after that.\<close>

definition idle :: "nat \<Rightarrow> call list" where
  "idle n = replicate n (SetThrottle (PyInt 0))"

definition rpm_after_idle :: "nat \<Rightarrow> VirtualCarSimulator \<Rightarrow> pyfloat option" where
  "rpm_after_idle n s = true_value (snd (run (idle n) s)) ''RPM''"

subsection \<open>Holding the throttle open\<close>

text \<open>
  The RPM value, the coolant temperature and the oil temperature that one pass at full
  throttle stores, from those stored before it, and the same for \<open>n\<close> passes.
\<close>

definition heat_step :: "real \<times> real \<times> real \<Rightarrow> real \<times> real \<times> real" where
  "heat_step v =
     (case v of (r, ct, ot) \<Rightarrow>
        let r' = r + (800 + 100 * 50 - r) * (1/10);
            ct' = ct + ((r' / 1000) * (2/10) + 100 * (5/100) - (ct - 85) * (1/10));
            ot' = ot + (ct' - ot) * (5/100)
        in (r', ct', ot'))"

fun heat :: "nat \<Rightarrow> real \<times> real \<times> real" where
  "heat 0 = (800, 85, 80)"
| "heat (Suc n) = heat_step (heat n)"

text \<open>The model after \<open>n\<close> calls \<^verbatim>\<open>set_throttle(100)\<close> from construction.\<close>

definition full_throttle :: "nat \<Rightarrow> VirtualCarSimulator" where
  "full_throttle n = snd (run (replicate n (SetThrottle (PyInt 100))) init)"

subsection \<open>Worlds and channels for examples\<close>



text \<open>The constructed model with every bound and noise level of its channels changed.\<close>

definition relabelled :: VirtualCarSimulator where
  "relabelled =
     init\<lparr>sensors := map (\<lambda>(k, c). (k, c\<lparr>max_value := Num 1, noise_level := Num 0\<rparr>)) (sensors init)\<rparr>"

section \<open>Basic facts\<close>

subsection \<open>Records, dictionaries\<close>

lemma car_simps:
  "sensors (s\<lparr>sensors := x\<rparr>) = x"
  "throttle (s\<lparr>sensors := x\<rparr>) = throttle s"
  "gear (s\<lparr>sensors := x\<rparr>) = gear s"
  "mileage (s\<lparr>sensors := x\<rparr>) = mileage s"
  "s\<lparr>sensors := x\<rparr>\<lparr>sensors := y\<rparr> = s\<lparr>sensors := y\<rparr>"
  "val (c\<lparr>val := v\<rparr>) = v"
  "s\<lparr>sensors := x, mileage := mileage s\<rparr> = s\<lparr>sensors := x\<rparr>"
  by simp_all

lemma map_of_put:
  "map_of (put k v xs) k' =
     (if k' = k then map_option (\<lambda>c. c\<lparr>val := v\<rparr>) (map_of xs k) else map_of xs k')"
  by (auto simp: put_def map_of_map_entry split: option.splits)

lemma layout_put:
  "map (\<lambda>(k, c). (k, name c, min_value c, max_value c, noise_level c)) (put k v xs) =
   map (\<lambda>(k, c). (k, name c, min_value c, max_value c, noise_level c)) xs"
  unfolding put_def by (induction xs) auto

lemma values_put:
  "map (\<lambda>(k, c). (k, val c)) (put k v xs) =
   AList.map_entry k (\<lambda>_. v) (map (\<lambda>(k, c). (k, val c)) xs)"
  unfolding put_def by (induction xs) auto

lemma true_value_channel_values: "true_value s k = map_of (channel_values s) k"
  by (simp add: true_value_def channel_values_def map_of_map)

subsection \<open>Floats\<close>

lemma less_Num: "Num a < y \<longleftrightarrow> (\<exists>b. y = Num b \<and> a < b)"
  by (cases y) simp_all

lemma value_in_iff: "value_in lo hi x \<longleftrightarrow> (\<exists>r. x = Some (Num r) \<and> lo \<le> r \<and> r \<le> hi)"
  by (cases "(lo, hi, x)" rule: value_in.cases) simp_all

lemma not_below_refl: "not_below x x"
  by (cases x) (simp_all add: not_below_def)

lemma not_below_trans: "not_below x y \<Longrightarrow> not_below y z \<Longrightarrow> not_below x z"
  by (cases x; cases y; cases z) (simp_all add: not_below_def)

lemma not_below_add:
  assumes "Num 0 < d"
  shows "not_below m (m + d / Num 3600)"
proof -
  obtain v where "d = Num v" "0 < v" using assms by (auto simp: less_Num)
  then show ?thesis by (cases m) (simp_all add: not_below_def)
qed

subsection \<open>One pass, in closed form\<close>

lemma update_sensors_done:
  assumes "map_of (sensors s) ''RPM'' = Some c1"
      "map_of (sensors s) ''SPEED'' = Some c2"
      "map_of (sensors s) ''ENGINE_LOAD'' = Some c3"
      "map_of (sensors s) ''COOLANT_TEMP'' = Some c4"
      "map_of (sensors s) ''OIL_TEMP'' = Some c5"
      "map_of (sensors s) ''OIL_PRESSURE'' = Some c6"
      "map_of (sensors s) ''FUEL_RATE'' = Some c7"
      "list_index gear_ratios (gear s) = Inr ratio"
  defines "thr \<equiv> num (throttle s)"
  defines "rpm \<equiv> val c1 + (Num 800 + thr * Num 50 - val c1) * Num (1/10)"
  defines "speed \<equiv> rpm * Num ratio / Num 60"
  defines "ct \<equiv> val c4 + ((rpm / Num 1000) * Num (2/10) + thr * Num (5/100) - (val c4 - Num 85) * Num (1/10))"
  defines "ot \<equiv> val c5 + (ct - val c5) * Num (5/100)"
  shows "update_sensors s =
     (Inr (), s\<lparr>sensors :=
                 put ''FUEL_RATE'' ((thr / Num 100) * Num 12 + (rpm / Num 1000) * Num (8/10))
                 (put ''OIL_PRESSURE''
                    (((rpm / Num 1000) * Num 8 + Num 20) *
                     clip_float (Num 1 - (ot - Num 80) / Num 200) (Num (1/2)) (Num (3/2)))
                 (put ''OIL_TEMP'' ot
                 (put ''COOLANT_TEMP'' ct
                 (put ''ENGINE_LOAD'' (thr * Num (7/10))
                 (put ''SPEED'' speed
                 (put ''RPM'' rpm (sensors s))))))),
               mileage := (if speed > Num 0 then mileage s + speed / Num 3600 else mileage s)\<rparr>)"
proof (cases "Num 0 < speed")
  case True
  then show ?thesis
    using assms(1-8) unfolding thr_def rpm_def speed_def ct_def ot_def
    by (simp only: update_sensors_def bind_def get_def lift_def ret_def add_mileage_def Let_def
        get_value_def set_value_def map_of_put
        prod.case sum.case option.case option.map car_simps
        list.inject char.inject simp_thms if_True if_False)
next
  case False
  then show ?thesis
    using assms(1-8) unfolding thr_def rpm_def speed_def ct_def ot_def
    by (simp only: update_sensors_def bind_def get_def lift_def ret_def add_mileage_def Let_def
        get_value_def set_value_def map_of_put
        prod.case sum.case option.case option.map car_simps
        list.inject char.inject simp_thms if_True if_False)
qed

lemma update_sensors_raise:
  assumes "map_of (sensors s) ''RPM'' = Some c1"
      "list_index gear_ratios (gear s) = Inl e"
  shows "update_sensors s =
     (Inl e, s\<lparr>sensors := put ''RPM'' (val c1 + (Num 800 + num (throttle s) * Num 50 - val c1) * Num (1/10)) (sensors s)\<rparr>)"
  using assms
  by (simp only: update_sensors_def bind_def get_def lift_def ret_def add_mileage_def Let_def
        get_value_def set_value_def map_of_put
        prod.case sum.case option.case option.map car_simps
        list.inject char.inject simp_thms if_True if_False)

subsection \<open>What every step of a pass leaves alone\<close>

lemma keeps_bind: "keeps f m \<Longrightarrow> (\<And>x. keeps f (g x)) \<Longrightarrow> keeps f (bind m g)"
  unfolding keeps_def bind_def
  by (auto split: prod.splits sum.splits) (metis snd_conv)+

lemma keeps_reads:
  "keeps f (ret x)" "keeps f (get h)" "keeps f (lift r)" "keeps f (get_value k)"
  by (auto simp: keeps_def ret_def get_def lift_def get_value_def split: option.splits)

lemma keeps_if: "keeps f a \<Longrightarrow> keeps f b \<Longrightarrow> keeps f (if c then a else b)"
  by simp

lemma keeps_writes:
  "keeps gear (set_value k v)" "keeps gear (add_mileage d)"
  "keeps throttle (set_value k v)" "keeps throttle (add_mileage d)"
  "keeps layout (set_value k v)" "keeps layout (add_mileage d)"
  by (auto simp: keeps_def set_value_def add_mileage_def layout_def layout_put split: option.splits)

lemma update_sensors_keeps:
  "keeps gear update_sensors" "keeps throttle update_sensors" "keeps layout update_sensors"
  unfolding update_sensors_def Let_def
  by (intro keeps_bind keeps_reads keeps_writes keeps_if)+

subsection \<open>Mileage never decreases within a pass\<close>

lemma grows_bind:
  assumes "grows m" "\<And>x. grows (g x)"
  shows "grows (bind m g)"
  unfolding grows_def
proof
  fix s
  obtain r s' where ms: "m s = (r, s')" by (cases "m s")
  have 1: "not_below (mileage s) (mileage s')"
    using assms(1) ms unfolding grows_def by (metis snd_conv)
  show "not_below (mileage s) (mileage (snd (bind m g s)))"
  proof (cases r)
    case (Inl e)
    then show ?thesis using ms 1 by (simp add: bind_def)
  next
    case (Inr x)
    have "not_below (mileage s') (mileage (snd (g x s')))"
      using assms(2)[of x] unfolding grows_def by blast
    then have "not_below (mileage s) (mileage (snd (g x s')))"
      using 1 not_below_trans by blast
    then show ?thesis using ms Inr by (simp add: bind_def)
  qed
qed

lemma grows_prims:
  "grows (ret x)" "grows (get h)" "grows (lift r)" "grows (get_value k)" "grows (set_value k v)"
  by (auto simp: grows_def ret_def get_def lift_def get_value_def set_value_def not_below_refl
      split: option.splits)

lemma grows_tail:
  "grows (bind (get_value k)
     (\<lambda>sp0. if sp0 > Num 0 then bind (get_value k) (\<lambda>sp1. add_mileage (sp1 / Num 3600)) else ret ()))"
  by (auto simp: grows_def bind_def get_value_def add_mileage_def ret_def not_below_refl not_below_add
      split: option.splits)

lemma update_sensors_grows: "grows update_sensors"
  unfolding update_sensors_def Let_def
  by (intro grows_tail grows_bind grows_prims)

subsection \<open>Reading\<close>

lemma rint_of_int: "rint (of_int i) = i"
  by (simp add: rint_def)

lemma read_car: "car (snd (read c w)) = car w"
  by (simp add: read_def random_uniform_def now_isoformat_def Let_def)

lemma read_items_car: "car (snd (read_items xs w)) = car w"
proof (induction xs arbitrary: w)
  case Nil
  show ?case by simp
next
  case (Cons x xs)
  obtain k c where x: "x = (k, c)" by (cases x)
  obtain r w1 where r: "read c w = (r, w1)" by (cases "read c w")
  have "car w1 = car w" using read_car[of c w] r by simp
  moreover have "car (snd (read_items xs w1)) = car w1" by (rule Cons.IH)
  ultimately show ?case using x r by (auto split: prod.splits)
qed

subsection \<open>The effect of one pass\<close>

lemma keys_presentD:
  assumes "keys_present s" "k \<in> set used_keys"
  shows "\<exists>c. map_of (sensors s) k = Some c"
proof -
  have "k \<in> fst ` set (sensors s)"
    using assms by (auto simp: keys_present_def list_all_iff)
  then show ?thesis
    by (cases "map_of (sensors s) k") (auto simp: map_of_eq_None_iff)
qed

lemma map_of_layout:
  "map_of (layout s) k =
     map_option (\<lambda>c. (name c, min_value c, max_value c, noise_level c)) (map_of (sensors s) k)"
  by (simp add: layout_def map_of_map)

lemma keys_layout: "map fst (layout s) = map fst (sensors s)"
  by (simp add: layout_def case_prod_unfold comp_def)

lemma keys_present_layout: "layout s' = layout s \<Longrightarrow> keys_present s' = keys_present s"
  using keys_layout[of s] keys_layout[of s'] by (simp add: keys_present_def)

lemma pass_done:
  assumes keys: "keys_present s"
    and ratio: "list_index gear_ratios (gear s) = Inr ratio"
    and c1: "map_of (sensors s) ''RPM'' = Some c1"
  defines "thr \<equiv> num (throttle s)"
  defines "rpm \<equiv> val c1 + (Num 800 + thr * Num 50 - val c1) * Num (1/10)"
  defines "s' \<equiv> snd (update_sensors s)"
  shows "fst (update_sensors s) = Inr ()"
    and "map_of (sensors s') ''RPM'' = Some (c1\<lparr>val := rpm\<rparr>)"
    and "true_value s' ''SPEED'' = Some (rpm * Num ratio / Num 60)"
    and "map_of (sensors s) ''ENGINE_LOAD'' = Some c3 \<Longrightarrow>
           map_of (sensors s') ''ENGINE_LOAD'' = Some (c3\<lparr>val := thr * Num (7/10)\<rparr>)"
    and "map_of (sensors s) ''FUEL_RATE'' = Some c7 \<Longrightarrow>
           map_of (sensors s') ''FUEL_RATE'' =
             Some (c7\<lparr>val := (thr / Num 100) * Num 12 + (rpm / Num 1000) * Num (8/10)\<rparr>)"
    and "mileage s' =
           (if rpm * Num ratio / Num 60 > Num 0 then mileage s + (rpm * Num ratio / Num 60) / Num 3600
            else mileage s)"
    and "k \<notin> set used_keys \<Longrightarrow> map_of (sensors s') k = map_of (sensors s) k"
proof -
  obtain c2 where c2: "map_of (sensors s) ''SPEED'' = Some c2"
    using keys_presentD[OF keys, of "''SPEED''"] by (auto simp: used_keys_def)
  obtain d3 where d3: "map_of (sensors s) ''ENGINE_LOAD'' = Some d3"
    using keys_presentD[OF keys, of "''ENGINE_LOAD''"] by (auto simp: used_keys_def)
  obtain c4 where c4: "map_of (sensors s) ''COOLANT_TEMP'' = Some c4"
    using keys_presentD[OF keys, of "''COOLANT_TEMP''"] by (auto simp: used_keys_def)
  obtain c5 where c5: "map_of (sensors s) ''OIL_TEMP'' = Some c5"
    using keys_presentD[OF keys, of "''OIL_TEMP''"] by (auto simp: used_keys_def)
  obtain c6 where c6: "map_of (sensors s) ''OIL_PRESSURE'' = Some c6"
    using keys_presentD[OF keys, of "''OIL_PRESSURE''"] by (auto simp: used_keys_def)
  obtain d7 where d7: "map_of (sensors s) ''FUEL_RATE'' = Some d7"
    using keys_presentD[OF keys, of "''FUEL_RATE''"] by (auto simp: used_keys_def)
  note closed = update_sensors_done[OF c1 c2 d3 c4 c5 c6 d7 ratio]
  show "fst (update_sensors s) = Inr ()"
    by (simp only: closed fst_conv)
  show "map_of (sensors s') ''RPM'' = Some (c1\<lparr>val := rpm\<rparr>)"
    unfolding s'_def rpm_def thr_def by (simp add: closed map_of_put c1)
  show "true_value s' ''SPEED'' = Some (rpm * Num ratio / Num 60)"
    unfolding s'_def rpm_def thr_def by (simp add: closed map_of_put c2 true_value_def)
  show "map_of (sensors s') ''ENGINE_LOAD'' = Some (c3\<lparr>val := thr * Num (7/10)\<rparr>)"
    if "map_of (sensors s) ''ENGINE_LOAD'' = Some c3"
    using that unfolding s'_def rpm_def thr_def by (simp add: closed map_of_put d3)
  show "map_of (sensors s') ''FUEL_RATE'' =
          Some (c7\<lparr>val := (thr / Num 100) * Num 12 + (rpm / Num 1000) * Num (8/10)\<rparr>)"
    if "map_of (sensors s) ''FUEL_RATE'' = Some c7"
    using that unfolding s'_def rpm_def thr_def by (simp add: closed map_of_put d7)
  show "mileage s' =
          (if rpm * Num ratio / Num 60 > Num 0 then mileage s + (rpm * Num ratio / Num 60) / Num 3600
           else mileage s)"
    unfolding s'_def rpm_def thr_def by (simp add: closed)
  show "map_of (sensors s') k = map_of (sensors s) k" if "k \<notin> set used_keys"
    using that unfolding s'_def by (simp add: closed map_of_put used_keys_def)
qed

text \<open>The three values that depend on the temperatures, after a pass that completes.\<close>

lemma pass_thermal:
  assumes keys: "keys_present s"
    and ratio: "list_index gear_ratios (gear s) = Inr ratio"
    and c1: "map_of (sensors s) ''RPM'' = Some c1"
    and c4: "map_of (sensors s) ''COOLANT_TEMP'' = Some c4"
    and c5: "map_of (sensors s) ''OIL_TEMP'' = Some c5"
    and c6: "map_of (sensors s) ''OIL_PRESSURE'' = Some c6"
  defines "thr \<equiv> num (throttle s)"
  defines "rpm \<equiv> val c1 + (Num 800 + thr * Num 50 - val c1) * Num (1/10)"
  defines "ct \<equiv> val c4 + ((rpm / Num 1000) * Num (2/10) + thr * Num (5/100) - (val c4 - Num 85) * Num (1/10))"
  defines "ot \<equiv> val c5 + (ct - val c5) * Num (5/100)"
  defines "s' \<equiv> snd (update_sensors s)"
  shows "map_of (sensors s') ''COOLANT_TEMP'' = Some (c4\<lparr>val := ct\<rparr>)"
    and "map_of (sensors s') ''OIL_TEMP'' = Some (c5\<lparr>val := ot\<rparr>)"
    and "map_of (sensors s') ''OIL_PRESSURE'' =
           Some (c6\<lparr>val := ((rpm / Num 1000) * Num 8 + Num 20) *
                           clip_float (Num 1 - (ot - Num 80) / Num 200) (Num (1/2)) (Num (3/2))\<rparr>)"
proof -
  obtain c2 where c2: "map_of (sensors s) ''SPEED'' = Some c2"
    using keys_presentD[OF keys, of "''SPEED''"] by (auto simp: used_keys_def)
  obtain c3 where c3: "map_of (sensors s) ''ENGINE_LOAD'' = Some c3"
    using keys_presentD[OF keys, of "''ENGINE_LOAD''"] by (auto simp: used_keys_def)
  obtain c7 where c7: "map_of (sensors s) ''FUEL_RATE'' = Some c7"
    using keys_presentD[OF keys, of "''FUEL_RATE''"] by (auto simp: used_keys_def)
  note closed = update_sensors_done[OF c1 c2 c3 c4 c5 c6 c7 ratio]
  show "map_of (sensors s') ''COOLANT_TEMP'' = Some (c4\<lparr>val := ct\<rparr>)"
    unfolding s'_def ct_def rpm_def thr_def by (simp add: closed map_of_put c4)
  show "map_of (sensors s') ''OIL_TEMP'' = Some (c5\<lparr>val := ot\<rparr>)"
    unfolding s'_def ot_def ct_def rpm_def thr_def by (simp add: closed map_of_put c5)
  show "map_of (sensors s') ''OIL_PRESSURE'' =
           Some (c6\<lparr>val := ((rpm / Num 1000) * Num 8 + Num 20) *
                           clip_float (Num 1 - (ot - Num 80) / Num 200) (Num (1/2)) (Num (3/2))\<rparr>)"
    unfolding s'_def ot_def ct_def rpm_def thr_def by (simp add: closed map_of_put c6)
qed

lemma pass_raise:
  assumes ratio: "list_index gear_ratios (gear s) = Inl e"
    and c1: "map_of (sensors s) ''RPM'' = Some c1"
  defines "s' \<equiv> snd (update_sensors s)"
  shows "fst (update_sensors s) = Inl e"
    and "map_of (sensors s') ''RPM'' =
           Some (c1\<lparr>val := val c1 + (Num 800 + num (throttle s) * Num 50 - val c1) * Num (1/10)\<rparr>)"
    and "k \<noteq> ''RPM'' \<Longrightarrow> map_of (sensors s') k = map_of (sensors s) k"
    and "mileage s' = mileage s"
  unfolding s'_def
  by (simp_all add: update_sensors_raise[OF c1 ratio] map_of_put c1)

subsection \<open>Clipping and the gear table\<close>

lemma clip_throttle_range:
  assumes "num t \<noteq> NaN"
  shows "\<exists>x. num (clip t 0 100) = Num x \<and> 0 \<le> x \<and> x \<le> 100"
proof (cases t)
  case (PyInt i)
  then show ?thesis by auto
next
  case (PyFloat x)
  then obtain r where "x = Num r" using assms by (cases x) auto
  then show ?thesis using PyFloat by auto
qed

lemma clip_gear_ok: "gear_index_ok (clip (PyInt i) 1 6)"
  by (auto simp: min_def max_def)

lemma gear_ratio_range:
  assumes "list_index gear_ratios g = Inr r"
  shows "0 \<le> r \<and> r \<le> 35/10"
proof -
  have "r \<in> set gear_ratios"
  proof (cases g)
    case (PyInt i)
    let ?n = "int (length gear_ratios)"
    consider "0 \<le> i" "i < ?n" "r = gear_ratios ! nat i"
      | "- ?n \<le> i" "i < 0" "r = gear_ratios ! nat (?n + i)"
      using assms PyInt by (auto split: if_splits)
    then show ?thesis
    proof cases
      case 1
      then have "nat i < length gear_ratios" by linarith
      then show ?thesis using 1(3) nth_mem by blast
    next
      case 2
      then have "nat (?n + i) < length gear_ratios" by linarith
      then show ?thesis using 2(3) nth_mem by blast
    qed
  next
    case (PyFloat x)
    then show ?thesis using assms by simp
  qed
  then show ?thesis by (auto simp: gear_ratios_def)
qed

lemma gear_index_ok_lookup:
  assumes "gear_index_ok g"
  shows "\<exists>r. list_index gear_ratios g = Inr r"
  using assms by (cases g) (auto simp: gear_ratios_def)

lemma gear_lookup_cases:
  obtains (ok) r where "list_index gear_ratios g = Inr r"
        | (fail) e where "list_index gear_ratios g = Inl e"
  by (cases "list_index gear_ratios g") auto

subsection \<open>Calls\<close>

lemma exec_layout: "layout (snd (exec c s)) = layout s"
  using update_sensors_keeps(3)
  by (cases c) (simp_all add: set_throttle_def set_gear_def keeps_def layout_def)

lemma exec_gear:
  "gear (snd (exec (SetThrottle t) s)) = gear s"
  "gear (snd (exec (SetGear g) s)) = clip g 1 6"
  using update_sensors_keeps(1) by (simp_all add: set_throttle_def set_gear_def keeps_def)

lemma exec_throttle:
  "throttle (snd (exec (SetThrottle t) s)) = clip t 0 100"
  "throttle (snd (exec (SetGear g) s)) = throttle s"
  using update_sensors_keeps(2) by (simp_all add: set_throttle_def set_gear_def keeps_def)

lemma exec_keys_present: "keys_present (snd (exec c s)) = keys_present s"
  by (rule keys_present_layout) (rule exec_layout)

lemma run_Cons:
  "fst (run (c # cs) s) = fst (exec c s) # fst (run cs (snd (exec c s)))"
  "snd (run (c # cs) s) = snd (run cs (snd (exec c s)))"
  by (simp_all split: prod.splits)

lemma run_layout: "layout (snd (run cs s)) = layout s"
  by (induction cs arbitrary: s) (simp_all add: run_Cons exec_layout del: run.simps(2))

lemma run_append:
  "snd (run (xs @ ys) s) = snd (run ys (snd (run xs s)))"
  by (induction xs arbitrary: s) (simp_all add: run_Cons del: run.simps(2))

lemma run_single: "snd (run [c] s) = snd (exec c s)"
  by (simp split: prod.splits)

lemma run_replicate_Suc:
  "snd (run (replicate (Suc n) c) s) = snd (exec c (snd (run (replicate n c) s)))"
proof -
  have "replicate (Suc n) c = replicate n c @ [c]"
    by (simp add: replicate_append_same)
  then show ?thesis by (simp only: run_append run_single)
qed

lemma pass_completes:
  assumes "keys_present s" "gear_index_ok (gear s)"
  shows "fst (update_sensors s) = Inr ()"
proof -
  obtain ratio where ratio: "list_index gear_ratios (gear s) = Inr ratio"
    using gear_index_ok_lookup[OF assms(2)] by blast
  obtain c1 where c1: "map_of (sensors s) ''RPM'' = Some c1"
    using keys_presentD[OF assms(1), of "''RPM''"] by (auto simp: used_keys_def)
  show ?thesis by (rule pass_done(1)[OF assms(1) ratio c1])
qed

lemma well_typed_exec:
  assumes "keys_present s" "gear_index_ok (gear s)" "well_typed c"
  shows "fst (exec c s) = Inr ()" and "gear_index_ok (gear (snd (exec c s)))"
proof -
  show "fst (exec c s) = Inr ()"
  proof (cases c)
    case (SetThrottle t)
    then show ?thesis
      using pass_completes[of "s\<lparr>throttle := clip t 0 100\<rparr>"] assms
      by (simp add: set_throttle_def keys_present_def)
  next
    case (SetGear g)
    then obtain i where "g = PyInt i" using assms(3) by (cases g) auto
    then show ?thesis
      using pass_completes[of "s\<lparr>gear := clip g 1 6\<rparr>"] assms(1) SetGear clip_gear_ok[of i]
      by (simp add: set_gear_def keys_present_def del: clip.simps gear_index_ok.simps)
  qed
  show "gear_index_ok (gear (snd (exec c s)))"
  proof (cases c)
    case (SetThrottle t)
    then show ?thesis using assms(2) by (simp only: exec_gear)
  next
    case (SetGear g)
    then obtain i where "g = PyInt i" using assms(3) by (cases g) auto
    then show ?thesis using SetGear clip_gear_ok[of i] by (simp only: exec_gear)
  qed
qed

lemma well_typed_run:
  assumes "keys_present s" "gear_index_ok (gear s)" "list_all well_typed cs"
  shows "list_all (\<lambda>r. r = Inr ()) (fst (run cs s))"
  using assms
proof (induction cs arbitrary: s)
  case Nil
  show ?case by simp
next
  case (Cons c cs)
  have c: "well_typed c" and cs: "list_all well_typed cs" using Cons.prems(3) by simp_all
  have 1: "fst (exec c s) = Inr ()"
    by (rule well_typed_exec(1)[OF Cons.prems(1,2) c])
  have 2: "gear_index_ok (gear (snd (exec c s)))"
    by (rule well_typed_exec(2)[OF Cons.prems(1,2) c])
  have 3: "keys_present (snd (exec c s))"
    using Cons.prems(1) by (simp only: exec_keys_present)
  show ?case
    using 1 Cons.IH[OF 3 2 cs] by (simp add: run_Cons del: run.simps(2))
qed

subsection \<open>Arithmetic of numbers that are not NaN\<close>

lemma Num_arith:
  "Num a + Num b = Num (a + b)"
  "Num a - Num b = Num (a - b)"
  "Num a * Num b = Num (a * b)"
  "Num a / Num 60 = Num (a / 60)"
  "Num a / Num 100 = Num (a / 100)"
  "Num a / Num 200 = Num (a / 200)"
  "Num a / Num 1000 = Num (a / 1000)"
  "Num a / Num 3600 = Num (a / 3600)"
  "clip_float (Num a) (Num lo) (Num hi) = Num (min (max a lo) hi)"
  by simp_all

lemma true_value_Some:
  "map_of (sensors s) k = Some c \<Longrightarrow> true_value s k = Some (val c)"
  by (simp add: true_value_def)

lemma true_valueD:
  assumes "true_value s k = Some v"
  obtains c where "map_of (sensors s) k = Some c" "val c = v"
  using assms by (auto simp: true_value_def)

text \<open>What a pass that completes stores, when what it reads is not NaN.\<close>

lemma pass_numbers:
  assumes keys: "keys_present s"
    and ratio: "list_index gear_ratios (gear s) = Inr ratio"
    and r: "true_value s ''RPM'' = Some (Num r)"
    and t: "num (throttle s) = Num t"
    and ct: "true_value s ''COOLANT_TEMP'' = Some (Num ct)"
    and ot: "true_value s ''OIL_TEMP'' = Some (Num ot)"
  defines "r' \<equiv> r + (800 + t * 50 - r) * (1/10)"
  defines "ct' \<equiv> ct + ((r' / 1000) * (2/10) + t * (5/100) - (ct - 85) * (1/10))"
  defines "ot' \<equiv> ot + (ct' - ot) * (5/100)"
  defines "s' \<equiv> snd (update_sensors s)"
  shows "true_value s' ''RPM'' = Some (Num r')"
    and "true_value s' ''SPEED'' = Some (Num (r' * ratio / 60))"
    and "true_value s' ''ENGINE_LOAD'' = Some (Num (t * (7/10)))"
    and "true_value s' ''COOLANT_TEMP'' = Some (Num ct')"
    and "true_value s' ''OIL_TEMP'' = Some (Num ot')"
    and "true_value s' ''OIL_PRESSURE'' =
           Some (Num (((r' / 1000) * 8 + 20) * min (max (1 - (ot' - 80) / 200) (1/2)) (3/2)))"
    and "true_value s' ''FUEL_RATE'' = Some (Num ((t / 100) * 12 + (r' / 1000) * (8/10)))"
proof -
  obtain c1 where c1: "map_of (sensors s) ''RPM'' = Some c1" and v1: "val c1 = Num r"
    using r by (rule true_valueD)
  obtain c4 where c4: "map_of (sensors s) ''COOLANT_TEMP'' = Some c4" and v4: "val c4 = Num ct"
    using ct by (rule true_valueD)
  obtain c5 where c5: "map_of (sensors s) ''OIL_TEMP'' = Some c5" and v5: "val c5 = Num ot"
    using ot by (rule true_valueD)
  obtain c3 where c3: "map_of (sensors s) ''ENGINE_LOAD'' = Some c3"
    using keys_presentD[OF keys, of "''ENGINE_LOAD''"] by (auto simp: used_keys_def)
  obtain c6 where c6: "map_of (sensors s) ''OIL_PRESSURE'' = Some c6"
    using keys_presentD[OF keys, of "''OIL_PRESSURE''"] by (auto simp: used_keys_def)
  obtain c7 where c7: "map_of (sensors s) ''FUEL_RATE'' = Some c7"
    using keys_presentD[OF keys, of "''FUEL_RATE''"] by (auto simp: used_keys_def)
  show "true_value s' ''RPM'' = Some (Num r')"
    unfolding s'_def r'_def
    using true_value_Some[OF pass_done(2)[OF keys ratio c1]]
    by (simp only: v1 t Num_arith car_simps)
  show "true_value s' ''SPEED'' = Some (Num (r' * ratio / 60))"
    unfolding s'_def r'_def
    using pass_done(3)[OF keys ratio c1]
    by (simp only: v1 t Num_arith)
  show "true_value s' ''ENGINE_LOAD'' = Some (Num (t * (7/10)))"
    unfolding s'_def
    using true_value_Some[OF pass_done(4)[OF keys ratio c1 c3]]
    by (simp only: t Num_arith car_simps)
  show "true_value s' ''COOLANT_TEMP'' = Some (Num ct')"
    unfolding s'_def ct'_def r'_def
    using true_value_Some[OF pass_thermal(1)[OF keys ratio c1 c4 c5 c6]]
    by (simp only: v1 v4 t Num_arith car_simps)
  show "true_value s' ''OIL_TEMP'' = Some (Num ot')"
    unfolding s'_def ot'_def ct'_def r'_def
    using true_value_Some[OF pass_thermal(2)[OF keys ratio c1 c4 c5 c6]]
    by (simp only: v1 v4 v5 t Num_arith car_simps)
  show "true_value s' ''OIL_PRESSURE'' =
           Some (Num (((r' / 1000) * 8 + 20) * min (max (1 - (ot' - 80) / 200) (1/2)) (3/2)))"
    unfolding s'_def ot'_def ct'_def r'_def
    using true_value_Some[OF pass_thermal(3)[OF keys ratio c1 c4 c5 c6]]
    by (simp only: v1 v4 v5 t Num_arith car_simps)
  show "true_value s' ''FUEL_RATE'' = Some (Num ((t / 100) * 12 + (r' / 1000) * (8/10)))"
    unfolding s'_def r'_def
    using true_value_Some[OF pass_done(5)[OF keys ratio c1 c7]]
    by (simp only: v1 t Num_arith car_simps)
qed

text \<open>The RPM value after a pass, whether or not the pass completes.\<close>

lemma pass_rpm:
  assumes keys: "keys_present s" and r: "true_value s ''RPM'' = Some (Num r)"
    and t: "num (throttle s) = Num t"
  shows "true_value (snd (update_sensors s)) ''RPM'' =
           Some (Num (r + (800 + t * 50 - r) * (1/10)))"
proof -
  obtain c1 where c1: "map_of (sensors s) ''RPM'' = Some c1" and v: "val c1 = Num r"
    using r by (rule true_valueD)
  show ?thesis
  proof (cases rule: gear_lookup_cases[of "gear s"])
    case (ok ratio)
    show ?thesis
      using true_value_Some[OF pass_done(2)[OF keys ok c1]]
      by (simp only: v t Num_arith car_simps)
  next
    case (fail e)
    show ?thesis
      using true_value_Some[OF pass_raise(2)[OF fail c1]]
      by (simp only: v t Num_arith car_simps)
  qed
qed

lemma pass_raise_others:
  assumes "list_index gear_ratios (gear s) = Inl e" "keys_present s" "k \<noteq> ''RPM''"
  shows "true_value (snd (update_sensors s)) k = true_value s k"
    and "in_bounds (snd (update_sensors s)) k = in_bounds s k"
proof -
  obtain c1 where c1: "map_of (sensors s) ''RPM'' = Some c1"
    using keys_presentD[OF assms(2), of "''RPM''"] by (auto simp: used_keys_def)
  note same = pass_raise(3)[OF assms(1) c1 assms(3)]
  show "true_value (snd (update_sensors s)) k = true_value s k"
    by (simp add: true_value_def same)
  show "in_bounds (snd (update_sensors s)) k = in_bounds s k"
    by (simp add: in_bounds_def same)
qed

lemma pass_done_others:
  assumes "list_index gear_ratios (gear s) = Inr ratio" "keys_present s" "k \<notin> set used_keys"
  shows "in_bounds (snd (update_sensors s)) k = in_bounds s k"
proof -
  obtain c1 where c1: "map_of (sensors s) ''RPM'' = Some c1"
    using keys_presentD[OF assms(2), of "''RPM''"] by (auto simp: used_keys_def)
  show ?thesis
    by (simp add: in_bounds_def pass_done(7)[OF assms(2) assms(1) c1 assms(3)])
qed

subsection \<open>The operating range\<close>

lemma pass_ranges:
  fixes r t ct ot ratio :: real
  assumes "800 \<le> r" "r \<le> 5800" "0 \<le> t" "t \<le> 100"
    and "85 \<le> ct" "ct \<le> 1466/10" "80 \<le> ot" "ot \<le> 1466/10"
    and "0 \<le> ratio" "ratio \<le> 35/10"
  defines "r' \<equiv> r + (800 + t * 50 - r) * (1/10)"
  defines "ct' \<equiv> ct + ((r' / 1000) * (2/10) + t * (5/100) - (ct - 85) * (1/10))"
  defines "ot' \<equiv> ot + (ct' - ot) * (5/100)"
  defines "p \<equiv> ((r' / 1000) * 8 + 20) * min (max (1 - (ot' - 80) / 200) (1/2)) (3/2)"
  shows "800 \<le> r' \<and> r' \<le> 5800"
    and "0 \<le> r' * ratio / 60 \<and> r' * ratio / 60 \<le> 339"
    and "0 \<le> t * (7/10) \<and> t * (7/10) \<le> 70"
    and "85 \<le> ct' \<and> ct' \<le> 1466/10"
    and "80 \<le> ot' \<and> ot' \<le> 1466/10"
    and "15 \<le> p \<and> p \<le> 80"
    and "0 \<le> (t / 100) * 12 + (r' / 1000) * (8/10) \<and> (t / 100) * 12 + (r' / 1000) * (8/10) \<le> 20"
proof -
  show rr: "800 \<le> r' \<and> r' \<le> 5800"
    using assms(1-4) unfolding r'_def by (simp add: field_simps)
  have "0 \<le> r' * ratio" using rr assms(9) by simp
  moreover have "r' * ratio \<le> 5800 * (35/10)"
    using rr assms(9,10) by (intro mult_mono) simp_all
  ultimately show "0 \<le> r' * ratio / 60 \<and> r' * ratio / 60 \<le> 339" by simp
  show "0 \<le> t * (7/10) \<and> t * (7/10) \<le> 70" using assms(3,4) by simp
  show cc: "85 \<le> ct' \<and> ct' \<le> 1466/10"
    using rr assms(3-6) unfolding ct'_def by (simp add: field_simps)
  show oo: "80 \<le> ot' \<and> ot' \<le> 1466/10"
    using cc assms(7,8) unfolding ot'_def by (simp add: field_simps)
  let ?f = "min (max (1 - (ot' - 80) / 200) (1/2)) (3/2)"
  let ?b = "(r' / 1000) * 8 + 20"
  have f: "667/1000 \<le> ?f" "?f \<le> 1" using oo by (simp_all add: min_def max_def field_simps)
  have b: "264/10 \<le> ?b" "?b \<le> 664/10" using rr by (simp_all add: field_simps)
  have "(264/10) * (667/1000) \<le> ?b * ?f"
    using f b by (intro mult_mono) simp_all
  moreover have "?b * ?f \<le> (664/10) * 1"
    using f b by (intro mult_mono) simp_all
  ultimately show "15 \<le> p \<and> p \<le> 80" unfolding p_def by simp
  show "0 \<le> (t / 100) * 12 + (r' / 1000) * (8/10) \<and> (t / 100) * 12 + (r' / 1000) * (8/10) \<le> 20"
    using rr assms(3,4) by (simp add: field_simps)
qed

lemma layout_init_lookup:
  assumes "layout s = layout init" "map_of (sensors s) k = Some c"
  shows "map_of (layout init) k = Some (name c, min_value c, max_value c, noise_level c)"
  using map_of_layout[of s k] assms by simp

lemma layout_init_keys: "layout s = layout init \<Longrightarrow> keys_present s"
proof -
  assume "layout s = layout init"
  then have "keys_present s = keys_present init" by (rule keys_present_layout)
  moreover have "keys_present init" by code_simp
  ultimately show ?thesis by simp
qed

lemma in_bounds_built:
  assumes "layout s = layout init" "true_value s k = Some (Num v)"
    and "map_of (layout init) k = Some (n, Num lo, Num hi, nl)"
  shows "in_bounds s k = (lo \<le> v \<and> v \<le> hi)"
proof -
  obtain c where c: "map_of (sensors s) k = Some c" and v: "val c = Num v"
    using assms(2) by (rule true_valueD)
  have "min_value c = Num lo" "max_value c = Num hi"
    using layout_init_lookup[OF assms(1) c] assms(3) by simp_all
  then show ?thesis using c v by (simp add: in_bounds_def)
qed

lemma built_bounds:
  "map_of (layout init) ''RPM'' = Some (''RPM'', Num 0, Num 7000, Num 50)"
  "map_of (layout init) ''SPEED'' = Some (''SPEED'', Num 0, Num 200, Num 2)"
  "map_of (layout init) ''COOLANT_TEMP'' = Some (''COOLANT_TEMP'', Num 60, Num 120, Num 1)"
  "map_of (layout init) ''ENGINE_LOAD'' = Some (''ENGINE_LOAD'', Num 0, Num 100, Num 2)"
  "map_of (layout init) ''FUEL_RATE'' = Some (''FUEL_RATE'', Num 0, Num 20, Num (1/10))"
  "map_of (layout init) ''OIL_TEMP'' = Some (''OIL_TEMP'', Num 60, Num 120, Num 1)"
  "map_of (layout init) ''OIL_PRESSURE'' = Some (''OIL_PRESSURE'', Num 15, Num 80, Num 2)"
  by (simp_all add: layout_def init_def mk_sensor_def)

lemma op_inv_pass:
  assumes "op_inv s"
  shows "op_inv (snd (update_sensors s))"
proof -
  let ?s' = "snd (update_sensors s)"
  from assms have lay: "layout s = layout init" by (simp add: op_inv_def)
  have keys: "keys_present s" by (rule layout_init_keys[OF lay])
  have lay': "layout ?s' = layout init"
    using update_sensors_keeps(3) lay by (simp add: keeps_def)
  have thr': "throttle ?s' = throttle s"
    using update_sensors_keeps(2) by (simp add: keeps_def)
  from assms obtain t where t: "num (throttle s) = Num t" "0 \<le> t" "t \<le> 100"
    by (auto simp: op_inv_def value_in_iff)
  from assms obtain r where r: "true_value s ''RPM'' = Some (Num r)" "800 \<le> r" "r \<le> 5800"
    by (auto simp: op_inv_def value_in_iff)
  from assms obtain ct where ct: "true_value s ''COOLANT_TEMP'' = Some (Num ct)" "85 \<le> ct" "ct \<le> 1466/10"
    by (auto simp: op_inv_def value_in_iff)
  from assms obtain ot where ot: "true_value s ''OIL_TEMP'' = Some (Num ot)" "80 \<le> ot" "ot \<le> 1466/10"
    by (auto simp: op_inv_def value_in_iff)
  from assms have rest: "in_bounds s ''THROTTLE_POS''" "in_bounds s ''INTAKE_TEMP''" "in_bounds s ''MAF''"
    by (simp_all add: op_inv_def)
  show ?thesis
  proof (cases rule: gear_lookup_cases[of "gear s"])
    case (ok ratio)
    have q: "0 \<le> ratio" "ratio \<le> 35/10" using gear_ratio_range[OF ok] by simp_all
    note n = pass_numbers[OF keys ok r(1) t(1) ct(1) ot(1)]
    note b = pass_ranges[OF r(2,3) t(2,3) ct(2,3) ot(2,3) q]
    have others: "in_bounds ?s' ''THROTTLE_POS''" "in_bounds ?s' ''INTAKE_TEMP''" "in_bounds ?s' ''MAF''"
      using rest by (simp_all add: pass_done_others[OF ok keys] used_keys_def)
    show ?thesis
      unfolding op_inv_def
      using lay' t others b
      by (simp only: thr' n value_in.simps simp_thms)
  next
    case (fail e)
    have rpm: "true_value ?s' ''RPM'' = Some (Num (r + (800 + t * 50 - r) * (1/10)))"
      by (rule pass_rpm[OF keys r(1) t(1)])
    have b: "800 \<le> r + (800 + t * 50 - r) * (1/10) \<and> r + (800 + t * 50 - r) * (1/10) \<le> 5800"
      using r(2,3) t(2,3) by (simp add: field_simps)
    have same: "true_value ?s' k = true_value s k" "in_bounds ?s' k = in_bounds s k"
      if "k \<noteq> ''RPM''" for k
      using pass_raise_others[OF fail keys that] by simp_all
    show ?thesis
      unfolding op_inv_def
      using assms lay' rpm b
      by (simp add: thr' same op_inv_def)
  qed
qed

lemma op_inv_inputs:
  assumes "op_inv s"
  shows "num t = Num x \<Longrightarrow> 0 \<le> x \<Longrightarrow> x \<le> 100 \<Longrightarrow> op_inv (s\<lparr>throttle := t\<rparr>)"
    and "op_inv (s\<lparr>gear := g\<rparr>)"
  using assms by (simp_all add: op_inv_def layout_def true_value_def in_bounds_def)

lemma op_inv_exec:
  assumes "op_inv s" "nan_free c"
  shows "op_inv (snd (exec c s))"
proof (cases c)
  case (SetThrottle t)
  then have "num t \<noteq> NaN" using assms(2) by simp
  then obtain x where "num (clip t 0 100) = Num x" "0 \<le> x" "x \<le> 100"
    using clip_throttle_range by blast
  then have "op_inv (s\<lparr>throttle := clip t 0 100\<rparr>)" by (rule op_inv_inputs(1)[OF assms(1)])
  then show ?thesis using SetThrottle by (simp add: set_throttle_def op_inv_pass)
next
  case (SetGear g)
  have "op_inv (s\<lparr>gear := clip g 1 6\<rparr>)" by (rule op_inv_inputs(2)[OF assms(1)])
  then show ?thesis using SetGear by (simp add: set_gear_def op_inv_pass)
qed

lemma op_inv_run: "op_inv s \<Longrightarrow> list_all nan_free cs \<Longrightarrow> op_inv (snd (run cs s))"
  by (induction cs arbitrary: s) (simp_all add: run_Cons op_inv_exec del: run.simps(2))

lemma op_inv_init: "op_inv init"
  by (simp add: op_inv_def true_value_def in_bounds_def init_def mk_sensor_def)

lemma op_inv_bounded:
  assumes "op_inv s"
  shows "list_all (in_bounds s) bounded_channels"
proof -
  from assms have lay: "layout s = layout init" by (simp add: op_inv_def)
  from assms obtain r where r: "true_value s ''RPM'' = Some (Num r)" "800 \<le> r" "r \<le> 5800"
    by (auto simp: op_inv_def value_in_iff)
  from assms obtain l where l: "true_value s ''ENGINE_LOAD'' = Some (Num l)" "0 \<le> l" "l \<le> 70"
    by (auto simp: op_inv_def value_in_iff)
  from assms obtain f where f: "true_value s ''FUEL_RATE'' = Some (Num f)" "0 \<le> f" "f \<le> 20"
    by (auto simp: op_inv_def value_in_iff)
  from assms obtain p where p: "true_value s ''OIL_PRESSURE'' = Some (Num p)" "15 \<le> p" "p \<le> 80"
    by (auto simp: op_inv_def value_in_iff)
  have "in_bounds s ''RPM''"
    using in_bounds_built[OF lay r(1) built_bounds(1)] r(2,3) by simp
  moreover have "in_bounds s ''ENGINE_LOAD''"
    using in_bounds_built[OF lay l(1) built_bounds(4)] l(2,3) by simp
  moreover have "in_bounds s ''FUEL_RATE''"
    using in_bounds_built[OF lay f(1) built_bounds(5)] f(2,3) by simp
  moreover have "in_bounds s ''OIL_PRESSURE''"
    using in_bounds_built[OF lay p(1) built_bounds(7)] p(2,3) by simp
  ultimately show ?thesis
    using assms by (simp add: bounded_channels_def op_inv_def)
qed

subsection \<open>Mileage\<close>

lemma completed_pass_keys:
  assumes "fst (update_sensors s) = Inr ()"
  shows "keys_present s"
proof -
  have "map_of (sensors s) k \<noteq> None" if "k \<in> set used_keys" for k
    using assms that
    by (auto simp: update_sensors_def bind_def get_def lift_def ret_def add_mileage_def Let_def
        get_value_def set_value_def map_of_put used_keys_def
        split: option.splits sum.splits if_splits)
  then show ?thesis
    by (auto simp: keys_present_def list_all_iff map_of_eq_None_iff)
qed

lemma completed_pass_lookup:
  assumes "fst (update_sensors s) = Inr ()"
  shows "\<exists>r. list_index gear_ratios (gear s) = Inr r"
proof (cases rule: gear_lookup_cases[of "gear s"])
  case (ok r)
  then show ?thesis by blast
next
  case (fail e)
  obtain c1 where c1: "map_of (sensors s) ''RPM'' = Some c1"
    using keys_presentD[OF completed_pass_keys[OF assms], of "''RPM''"]
    by (auto simp: used_keys_def)
  show ?thesis using pass_raise(1)[OF fail c1] assms by simp
qed

lemma completed_pass_mileage:
  assumes fin: "fst (update_sensors s) = Inr ()"
    and v: "true_value (snd (update_sensors s)) ''SPEED'' = Some v"
  shows "mileage (snd (update_sensors s)) =
           (if Num 0 < v then mileage s + v / Num 3600 else mileage s)"
proof -
  have keys: "keys_present s" by (rule completed_pass_keys[OF fin])
  obtain ratio where ratio: "list_index gear_ratios (gear s) = Inr ratio"
    using completed_pass_lookup[OF fin] by blast
  obtain c1 where c1: "map_of (sensors s) ''RPM'' = Some c1"
    using keys_presentD[OF keys, of "''RPM''"] by (auto simp: used_keys_def)
  let ?rpm = "val c1 + (Num 800 + num (throttle s) * Num 50 - val c1) * Num (1/10)"
  have "true_value (snd (update_sensors s)) ''SPEED'' = Some (?rpm * Num ratio / Num 60)"
    by (rule pass_done(3)[OF keys ratio c1])
  then have "v = ?rpm * Num ratio / Num 60" using v by simp
  then show ?thesis using pass_done(6)[OF keys ratio c1] by simp
qed

lemma exec_mileage_le: "not_below (mileage s) (mileage (snd (exec c s)))"
proof (cases c)
  case (SetThrottle t)
  have "not_below (mileage (s\<lparr>throttle := clip t 0 100\<rparr>))
          (mileage (snd (update_sensors (s\<lparr>throttle := clip t 0 100\<rparr>))))"
    using update_sensors_grows unfolding grows_def by blast
  then show ?thesis using SetThrottle by (simp add: set_throttle_def)
next
  case (SetGear g)
  have "not_below (mileage (s\<lparr>gear := clip g 1 6\<rparr>))
          (mileage (snd (update_sensors (s\<lparr>gear := clip g 1 6\<rparr>))))"
    using update_sensors_grows unfolding grows_def by blast
  then show ?thesis using SetGear by (simp add: set_gear_def)
qed

lemma run_mileage_le: "not_below (mileage s) (mileage (snd (run cs s)))"
proof (induction cs arbitrary: s)
  case Nil
  show ?case by (simp add: not_below_refl)
next
  case (Cons c cs)
  have "not_below (mileage s) (mileage (snd (exec c s)))" by (rule exec_mileage_le)
  moreover have "not_below (mileage (snd (exec c s))) (mileage (snd (run cs (snd (exec c s)))))"
    by (rule Cons.IH)
  ultimately have "not_below (mileage s) (mileage (snd (run cs (snd (exec c s)))))"
    by (rule not_below_trans)
  then show ?case by (simp only: run_Cons)
qed

lemma exec_mileage_step:
  assumes "fst (exec c s) = Inr ()" "true_value (snd (exec c s)) ''SPEED'' = Some v"
  shows "mileage (snd (exec c s)) = (if Num 0 < v then mileage s + v / Num 3600 else mileage s)"
proof (cases c)
  case (SetThrottle t)
  then show ?thesis
    using assms completed_pass_mileage[of "s\<lparr>throttle := clip t 0 100\<rparr>" v]
    by (simp add: set_throttle_def)
next
  case (SetGear g)
  then show ?thesis
    using assms completed_pass_mileage[of "s\<lparr>gear := clip g 1 6\<rparr>" v]
    by (simp add: set_gear_def)
qed

lemma mileage_strict:
  assumes "Num 0 < v" "m \<noteq> NaN"
  shows "m < m + v / Num 3600"
proof -
  obtain x where "v = Num x" "0 < x" using assms(1) by (auto simp: less_Num)
  moreover obtain y where "m = Num y" using assms(2) by (cases m) auto
  ultimately show ?thesis by simp
qed

subsection \<open>A pass reads and writes the core only\<close>

lemma get_value_core:
  "get_value k s = (case map_of (channel_values s) k of None \<Rightarrow> (Inl KeyError, s) | Some v \<Rightarrow> (Inr v, s))"
  by (simp add: get_value_def true_value_channel_values[symmetric] true_value_def split: option.splits)

lemma set_value_core:
  "set_value k v s =
     (case map_of (channel_values s) k of
        None \<Rightarrow> (Inl KeyError, s)
      | Some _ \<Rightarrow> (Inr (), s\<lparr>sensors := put k v (sensors s)\<rparr>))"
  by (simp add: set_value_def true_value_channel_values[symmetric] true_value_def split: option.splits)

lemma determined_bind:
  assumes "determined m" "\<And>x. determined (f x)"
  shows "determined (bind m f)"
  unfolding determined_def
proof (intro allI impI)
  fix s1 s2 :: VirtualCarSimulator
  assume eq: "core s1 = core s2"
  obtain r1 t1 where m1: "m s1 = (r1, t1)" by (cases "m s1")
  obtain r2 t2 where m2: "m s2 = (r2, t2)" by (cases "m s2")
  have r: "r1 = r2" and t: "core t1 = core t2"
    using assms(1) eq m1 m2 unfolding determined_def by (metis fst_conv, metis snd_conv)
  show "fst (bind m f s1) = fst (bind m f s2) \<and> core (snd (bind m f s1)) = core (snd (bind m f s2))"
  proof (cases r1)
    case (Inl e)
    then show ?thesis using m1 m2 r t by (simp add: bind_def)
  next
    case (Inr x)
    have "fst (f x t1) = fst (f x t2) \<and> core (snd (f x t1)) = core (snd (f x t2))"
      using assms(2)[of x] t unfolding determined_def by blast
    then show ?thesis using m1 m2 r Inr by (auto simp: bind_def)
  qed
qed

lemma core_updates:
  "core (s\<lparr>sensors := put k v (sensors s)\<rparr>) =
     (AList.map_entry k (\<lambda>_. v) (channel_values s), throttle s, gear s, mileage s)"
  "core (s\<lparr>mileage := x\<rparr>) = (channel_values s, throttle s, gear s, x)"
  by (simp_all add: core_def channel_values_def values_put)

lemma core_eqD:
  assumes "core s1 = core s2"
  shows "channel_values s1 = channel_values s2" "throttle s1 = throttle s2"
    "gear s1 = gear s2" "mileage s1 = mileage s2"
  using assms by (simp_all add: core_def)

lemma determined_reads:
  "determined (ret x)" "determined (lift r)" "determined (get throttle)" "determined (get gear)"
  by (simp_all add: determined_def ret_def lift_def get_def core_def)

lemma determined_get_value: "determined (get_value k)"
  unfolding determined_def
proof (intro allI impI)
  fix s1 s2 :: VirtualCarSimulator
  assume eq: "core s1 = core s2"
  show "fst (get_value k s1) = fst (get_value k s2) \<and>
        core (snd (get_value k s1)) = core (snd (get_value k s2))"
    using eq core_eqD(1)[OF eq]
    by (cases "map_of (channel_values s2) k") (simp_all add: get_value_core)
qed

lemma determined_set_value: "determined (set_value k v)"
  unfolding determined_def
proof (intro allI impI)
  fix s1 s2 :: VirtualCarSimulator
  assume eq: "core s1 = core s2"
  show "fst (set_value k v s1) = fst (set_value k v s2) \<and>
        core (snd (set_value k v s1)) = core (snd (set_value k v s2))"
    using eq core_eqD[OF eq]
    by (cases "map_of (channel_values s2) k") (simp_all add: set_value_core core_updates)
qed

lemma determined_add_mileage: "determined (add_mileage d)"
  unfolding determined_def
proof (intro allI impI)
  fix s1 s2 :: VirtualCarSimulator
  assume eq: "core s1 = core s2"
  show "fst (add_mileage d s1) = fst (add_mileage d s2) \<and>
        core (snd (add_mileage d s1)) = core (snd (add_mileage d s2))"
    using core_eqD[OF eq] by (simp add: add_mileage_def core_updates)
qed

lemmas determined_prims =
  determined_reads determined_get_value determined_set_value determined_add_mileage

lemma determined_if: "determined a \<Longrightarrow> determined b \<Longrightarrow> determined (if c then a else b)"
  by simp

lemma update_sensors_determined: "determined update_sensors"
  unfolding update_sensors_def Let_def
  by (intro determined_bind determined_prims determined_if)

lemma core_inputs:
  "core (s\<lparr>throttle := t\<rparr>) = (channel_values s, t, gear s, mileage s)"
  "core (s\<lparr>gear := g\<rparr>) = (channel_values s, throttle s, g, mileage s)"
  by (simp_all add: core_def channel_values_def)

lemma exec_determined: "determined (exec c)"
  unfolding determined_def
proof (intro allI impI)
  fix s1 s2 :: VirtualCarSimulator
  assume eq: "core s1 = core s2"
  note pass = update_sensors_determined[unfolded determined_def, rule_format]
  show "fst (exec c s1) = fst (exec c s2) \<and> core (snd (exec c s1)) = core (snd (exec c s2))"
  proof (cases c)
    case (SetThrottle t)
    have "core (s1\<lparr>throttle := clip t 0 100\<rparr>) = core (s2\<lparr>throttle := clip t 0 100\<rparr>)"
      using core_eqD[OF eq] by (simp only: core_inputs)
    from pass[OF this] show ?thesis using SetThrottle by (simp only: exec.simps set_throttle_def)
  next
    case (SetGear g)
    have "core (s1\<lparr>gear := clip g 1 6\<rparr>) = core (s2\<lparr>gear := clip g 1 6\<rparr>)"
      using core_eqD[OF eq] by (simp only: core_inputs)
    from pass[OF this] show ?thesis using SetGear by (simp only: exec.simps set_gear_def)
  qed
qed

lemma run_determined:
  "core s1 = core s2 \<Longrightarrow>
   fst (run cs s1) = fst (run cs s2) \<and> core (snd (run cs s1)) = core (snd (run cs s2))"
proof (induction cs arbitrary: s1 s2)
  case Nil
  then show ?case by simp
next
  case (Cons c cs)
  note step = exec_determined[of c, unfolded determined_def, rule_format, OF Cons.prems]
  have 1: "fst (exec c s1) = fst (exec c s2)" using step by (rule conjunct1)
  have 2: "core (snd (exec c s1)) = core (snd (exec c s2))" using step by (rule conjunct2)
  show ?case using 1 Cons.IH[OF 2] by (simp only: run_Cons simp_thms)
qed

subsection \<open>The approach of the RPM value to its target\<close>

lemma idle_step:
  assumes "keys_present s" "true_value s ''RPM'' = Some (Num r)"
  shows "true_value (snd (exec (SetThrottle (PyInt 0)) s)) ''RPM'' =
           Some (Num (800 + (r - 800) * (9/10)))"
proof -
  let ?s0 = "s\<lparr>throttle := clip (PyInt 0) 0 100\<rparr>"
  have k: "keys_present ?s0" using assms(1) by (simp add: keys_present_def)
  have r: "true_value ?s0 ''RPM'' = Some (Num r)" using assms(2) by (simp add: true_value_def)
  have t: "num (throttle ?s0) = Num 0" by simp
  show ?thesis using pass_rpm[OF k r t] by (simp add: set_throttle_def field_simps)
qed

lemma idle_Suc:
  "snd (run (idle (Suc n)) s) = snd (run (idle n) (snd (exec (SetThrottle (PyInt 0)) s)))"
  by (simp only: idle_def replicate_Suc run_Cons)

lemma rpm_after_idle_closed:
  assumes "keys_present s" "true_value s ''RPM'' = Some (Num r)"
  shows "rpm_after_idle n s = Some (Num (800 + (r - 800) * (9/10) ^ n))"
  using assms
proof (induction n arbitrary: s r)
  case 0
  then show ?case by (simp add: rpm_after_idle_def idle_def)
next
  case (Suc n)
  let ?s1 = "snd (exec (SetThrottle (PyInt 0)) s)"
  have k: "keys_present ?s1" using Suc.prems(1) by (simp only: exec_keys_present)
  have r1: "true_value ?s1 ''RPM'' = Some (Num (800 + (r - 800) * (9/10)))"
    by (rule idle_step[OF Suc.prems])
  have "rpm_after_idle (Suc n) s = rpm_after_idle n ?s1"
    by (simp only: rpm_after_idle_def idle_Suc)
  also have "\<dots> = Some (Num (800 + ((800 + (r - 800) * (9/10)) - 800) * (9/10) ^ n))"
    by (rule Suc.IH[OF k r1])
  finally show ?case by simp
qed

lemma decay_bound: "(9/10 :: real) ^ n \<le> 9 / (9 + real n)"
proof (induction n)
  case 0
  show ?case by simp
next
  case (Suc n)
  have "(9/10 :: real) ^ Suc n = (9/10) * (9/10) ^ n" by simp
  also have "\<dots> \<le> (9/10) * (9 / (9 + real n))"
    using Suc.IH by (intro mult_left_mono) simp_all
  also have "\<dots> \<le> 9 / (9 + real (Suc n))"
    by (simp add: field_simps)
  finally show ?case .
qed

lemma decay_within_one:
  assumes "0 < d" "9 * d \<le> real n"
  shows "d * (9/10) ^ n < 1"
proof -
  have "d * (9/10) ^ n \<le> d * (9 / (9 + real n))"
    using decay_bound[of n] assms(1) by (simp only: mult_le_cancel_left_pos)
  also have "\<dots> < 1" using assms by (simp add: field_simps)
  finally show ?thesis .
qed

lemma decay_within_one_83:
  assumes "0 < d" "d \<le> 6200" "83 \<le> n"
  shows "d * (9/10 :: real) ^ n < 1"
proof -
  have "(9/10 :: real) ^ n \<le> (9/10) ^ 83"
    using assms(3) by (intro power_decreasing) simp_all
  then have "d * (9/10) ^ n \<le> 6200 * (9/10 :: real) ^ 83"
    using assms(1,2) by (intro mult_mono) simp_all
  also have "\<dots> < 1" by (simp add: power_divide)
  finally show ?thesis .
qed

subsection \<open>Holding the throttle open\<close>

lemma full_throttle_Suc:
  "full_throttle (Suc n) = snd (update_sensors (full_throttle n\<lparr>throttle := PyInt 100\<rparr>))"
  unfolding full_throttle_def by (simp only: run_replicate_Suc) (simp add: set_throttle_def)

lemma full_throttle_layout: "layout (full_throttle n) = layout init"
  unfolding full_throttle_def by (rule run_layout)

lemma full_throttle_gear: "gear (full_throttle n) = PyInt 3"
proof (induction n)
  case 0
  show ?case by (simp add: full_throttle_def init_def)
next
  case (Suc n)
  show ?case
    using update_sensors_keeps(1) Suc.IH by (simp add: full_throttle_Suc keeps_def)
qed

lemma full_throttle_throttle: "throttle (full_throttle (Suc n)) = PyInt 100"
  using update_sensors_keeps(2) by (simp add: full_throttle_Suc keeps_def)

lemma full_throttle_ready:
  "keys_present (full_throttle n\<lparr>throttle := t\<rparr>)"
  "keys_present (full_throttle n\<lparr>gear := g\<rparr>)"
  using layout_init_keys[OF full_throttle_layout[of n]] by (simp_all add: keys_present_def)

lemma full_throttle_heat:
  "true_value (full_throttle n) ''RPM'' = Some (Num (fst (heat n))) \<and>
   true_value (full_throttle n) ''COOLANT_TEMP'' = Some (Num (fst (snd (heat n)))) \<and>
   true_value (full_throttle n) ''OIL_TEMP'' = Some (Num (snd (snd (heat n))))"
proof (induction n)
  case 0
  show ?case by (simp add: full_throttle_def true_value_def init_def mk_sensor_def)
next
  case (Suc n)
  let ?s0 = "full_throttle n\<lparr>throttle := PyInt 100\<rparr>"
  obtain r ct ot where h: "heat n = (r, ct, ot)" by (cases "heat n")
  have k: "keys_present ?s0" by (rule full_throttle_ready)
  have g: "list_index gear_ratios (gear ?s0) = Inr (18/10)"
    by (simp add: full_throttle_gear gear_ratios_def)
  have t: "num (throttle ?s0) = Num 100" by simp
  have v: "true_value ?s0 ''RPM'' = Some (Num r)" "true_value ?s0 ''COOLANT_TEMP'' = Some (Num ct)"
    "true_value ?s0 ''OIL_TEMP'' = Some (Num ot)"
    using Suc.IH h by (simp_all add: true_value_def)
  note n = pass_numbers[OF k g v(1) t v(2) v(3)]
  show ?case
    using n(1) n(4) n(5) by (simp add: full_throttle_Suc h heat_step_def Let_def)
qed

lemma full_throttle_speed:
  "true_value (full_throttle (Suc n)) ''SPEED'' = Some (Num (fst (heat (Suc n)) * (18/10) / 60))"
proof -
  let ?s0 = "full_throttle n\<lparr>throttle := PyInt 100\<rparr>"
  obtain r ct ot where h: "heat n = (r, ct, ot)" by (cases "heat n")
  have k: "keys_present ?s0" by (rule full_throttle_ready)
  have g: "list_index gear_ratios (gear ?s0) = Inr (18/10)"
    by (simp add: full_throttle_gear gear_ratios_def)
  have t: "num (throttle ?s0) = Num 100" by simp
  have v: "true_value ?s0 ''RPM'' = Some (Num r)" "true_value ?s0 ''COOLANT_TEMP'' = Some (Num ct)"
    "true_value ?s0 ''OIL_TEMP'' = Some (Num ot)"
    using full_throttle_heat[of n] h by (simp_all add: true_value_def)
  note n = pass_numbers[OF k g v(1) t v(2) v(3)]
  show ?thesis
    using n(2) by (simp add: full_throttle_Suc h heat_step_def Let_def)
qed

text \<open>\<^verbatim>\<open>set_gear(1)\<close> after \<open>n + 1\<close> calls \<^verbatim>\<open>set_throttle(100)\<close>: it completes, and the speed it stores.\<close>

lemma first_gear_speed:
  "fst (set_gear (PyInt 1) (full_throttle (Suc n))) = Inr () \<and>
   layout (snd (set_gear (PyInt 1) (full_throttle (Suc n)))) = layout init \<and>
   true_value (snd (set_gear (PyInt 1) (full_throttle (Suc n)))) ''SPEED'' =
     Some (Num (fst (heat (Suc (Suc n))) * (35/10) / 60))"
proof -
  let ?s0 = "full_throttle (Suc n)\<lparr>gear := PyInt 1\<rparr>"
  obtain r ct ot where h: "heat (Suc n) = (r, ct, ot)" by (cases "heat (Suc n)")
  have k: "keys_present ?s0" by (rule full_throttle_ready)
  have g: "list_index gear_ratios (gear ?s0) = Inr (35/10)"
    by (simp add: gear_ratios_def)
  have t: "num (throttle ?s0) = Num 100" by (simp add: full_throttle_throttle)
  have v: "true_value ?s0 ''RPM'' = Some (Num r)" "true_value ?s0 ''COOLANT_TEMP'' = Some (Num ct)"
    "true_value ?s0 ''OIL_TEMP'' = Some (Num ot)"
    using full_throttle_heat[of "Suc n"] h by (simp_all add: true_value_def)
  note n = pass_numbers[OF k g v(1) t v(2) v(3)]
  have c1: "\<exists>c1. map_of (sensors ?s0) ''RPM'' = Some c1"
    using keys_presentD[OF k, of "''RPM''"] by (simp add: used_keys_def)
  have a: "fst (update_sensors ?s0) = Inr ()"
    using c1 pass_done(1)[OF k g] by blast
  have b: "layout (snd (update_sensors ?s0)) = layout init"
    using update_sensors_keeps(3) full_throttle_layout[of "Suc n"] by (simp add: keeps_def layout_def)
  have c: "true_value (snd (update_sensors ?s0)) ''SPEED'' =
             Some (Num (fst (heat (Suc (Suc n))) * (35/10) / 60))"
    using n(2) h by (simp add: heat_step_def Let_def)
  have "set_gear (PyInt 1) (full_throttle (Suc n)) = update_sensors ?s0"
    by (simp add: set_gear_def)
  then show ?thesis using a b c by (simp only: simp_thms)
qed

text \<open>One more call \<^verbatim>\<open>set_throttle(100)\<close> completes.\<close>

lemma full_throttle_completes:
  "fst (set_throttle (PyInt 100) (full_throttle n)) = Inr () \<and>
   snd (set_throttle (PyInt 100) (full_throttle n)) = full_throttle (Suc n)"
proof -
  let ?s0 = "full_throttle n\<lparr>throttle := PyInt 100\<rparr>"
  have k: "keys_present ?s0" by (rule full_throttle_ready)
  have g: "gear_index_ok (gear ?s0)" by (simp add: full_throttle_gear)
  have "fst (update_sensors ?s0) = Inr ()" by (rule pass_completes[OF k g])
  then show ?thesis by (simp add: set_throttle_def full_throttle_Suc)
qed

subsection \<open>Rounding to the nearest integer\<close>






subsection \<open>Doubles\<close>













subsection \<open>Rounding a clamped value to two decimals\<close>





subsection \<open>The binary exponent, exactly\<close>






subsection \<open>Readings of channels without noise, and of NaN\<close>







section \<open>The claims\<close>

subsection \<open>C1: stored values and bounds\<close>

text \<open>
  C1, as stated: after every \<^verbatim>\<open>set_throttle\<close> or \<^verbatim>\<open>set_gear\<close> call made with the throttle in
  \<open>[0, 100]\<close> and the gear in \<open>{1..6}\<close>, the stored value of every channel lies within the
  bounds of the channel. Four calls show otherwise, each made on a model reached from
  construction, each completing, each on a channel whose stored value was within its
  bounds before the call. After seven calls \<^verbatim>\<open>set_throttle(100)\<close>, the call \<^verbatim>\<open>set_gear(1)\<close>
  stores a speed above 200. After nine, one more \<^verbatim>\<open>set_throttle(100)\<close> stores a coolant
  temperature above 120; after twenty-nine, one more stores an oil temperature above 120.
  On the constructed model, \<^verbatim>\<open>set_throttle(float('nan'))\<close> stores NaN as the RPM value, which
  lies within no bounds. The pass stores what it computes; only \<^verbatim>\<open>read\<close> clamps.
\<close>

theorem stored_values_leave_bounds:
  "throttle (full_throttle 7) = PyInt 100 \<and> gear (full_throttle 7) = PyInt 3 \<and>
   in_bounds (full_throttle 7) ''SPEED'' \<and>
   fst (set_gear (PyInt 1) (full_throttle 7)) = Inr () \<and>
   \<not> in_bounds (snd (set_gear (PyInt 1) (full_throttle 7))) ''SPEED'' \<and>
   throttle (full_throttle 9) = PyInt 100 \<and> gear (full_throttle 9) = PyInt 3 \<and>
   in_bounds (full_throttle 9) ''COOLANT_TEMP'' \<and>
   fst (set_throttle (PyInt 100) (full_throttle 9)) = Inr () \<and>
   \<not> in_bounds (snd (set_throttle (PyInt 100) (full_throttle 9))) ''COOLANT_TEMP'' \<and>
   throttle (full_throttle 29) = PyInt 100 \<and> gear (full_throttle 29) = PyInt 3 \<and>
   in_bounds (full_throttle 29) ''OIL_TEMP'' \<and>
   fst (set_throttle (PyInt 100) (full_throttle 29)) = Inr () \<and>
   \<not> in_bounds (snd (set_throttle (PyInt 100) (full_throttle 29))) ''OIL_TEMP'' \<and>
   in_bounds init ''RPM'' \<and>
   fst (set_throttle (PyFloat NaN) init) = Inr () \<and>
   \<not> in_bounds (snd (set_throttle (PyFloat NaN) init)) ''RPM''"
proof -
  have n7: "(7::nat) = Suc 6" and n9: "(9::nat) = Suc 8" and n29: "(29::nat) = Suc 28"
    by simp_all
  have t: "throttle (full_throttle 7) = PyInt 100" "throttle (full_throttle 9) = PyInt 100"
    "throttle (full_throttle 29) = PyInt 100"
    by (simp_all only: n7 n9 n29 full_throttle_throttle)
  note g = full_throttle_gear[of 7] full_throttle_gear[of 9] full_throttle_gear[of 29]
  have speed_before: "in_bounds (full_throttle 7) ''SPEED''"
  proof -
    have "true_value (full_throttle 7) ''SPEED'' = Some (Num (fst (heat 7) * (18/10) / 60))"
      using full_throttle_speed[of 6] by (simp only: n7)
    from in_bounds_built[OF full_throttle_layout this built_bounds(2)]
    show ?thesis by (simp add: eval_nat_numeral heat_step_def)
  qed
  have speed_call: "fst (set_gear (PyInt 1) (full_throttle 7)) = Inr ()"
    using first_gear_speed[of 6] by (simp only: n7)
  have speed_after: "\<not> in_bounds (snd (set_gear (PyInt 1) (full_throttle 7))) ''SPEED''"
  proof -
    have l: "layout (snd (set_gear (PyInt 1) (full_throttle 7))) = layout init"
      using first_gear_speed[of 6] by (simp only: n7)
    have v: "true_value (snd (set_gear (PyInt 1) (full_throttle 7))) ''SPEED'' =
               Some (Num (fst (heat (Suc (Suc 6))) * (35/10) / 60))"
      using first_gear_speed[of 6] by (simp only: n7)
    from in_bounds_built[OF l v built_bounds(2)]
    show ?thesis by (simp add: eval_nat_numeral heat_step_def)
  qed
  have coolant_before: "in_bounds (full_throttle 9) ''COOLANT_TEMP''"
  proof -
    have "true_value (full_throttle 9) ''COOLANT_TEMP'' = Some (Num (fst (snd (heat 9))))"
      using full_throttle_heat[of 9] by simp
    from in_bounds_built[OF full_throttle_layout this built_bounds(3)]
    show ?thesis by (simp add: eval_nat_numeral heat_step_def)
  qed
  have coolant_after: "\<not> in_bounds (snd (set_throttle (PyInt 100) (full_throttle 9))) ''COOLANT_TEMP''"
  proof -
    have "true_value (full_throttle (Suc 9)) ''COOLANT_TEMP'' = Some (Num (fst (snd (heat (Suc 9)))))"
      using full_throttle_heat[of "Suc 9"] by simp
    from in_bounds_built[OF full_throttle_layout this built_bounds(3)]
    have "\<not> in_bounds (full_throttle (Suc 9)) ''COOLANT_TEMP''"
      by (simp add: eval_nat_numeral heat_step_def)
    then show ?thesis using full_throttle_completes[of 9] by simp
  qed
  have oil_before: "in_bounds (full_throttle 29) ''OIL_TEMP''"
  proof -
    have "true_value (full_throttle 29) ''OIL_TEMP'' = Some (Num (snd (snd (heat 29))))"
      using full_throttle_heat[of 29] by simp
    from in_bounds_built[OF full_throttle_layout this built_bounds(6)]
    show ?thesis by (simp add: eval_nat_numeral heat_step_def)
  qed
  have oil_after: "\<not> in_bounds (snd (set_throttle (PyInt 100) (full_throttle 29))) ''OIL_TEMP''"
  proof -
    have "true_value (full_throttle (Suc 29)) ''OIL_TEMP'' = Some (Num (snd (snd (heat (Suc 29)))))"
      using full_throttle_heat[of "Suc 29"] by simp
    from in_bounds_built[OF full_throttle_layout this built_bounds(6)]
    have "\<not> in_bounds (full_throttle (Suc 29)) ''OIL_TEMP''"
      by (simp add: eval_nat_numeral heat_step_def)
    then show ?thesis using full_throttle_completes[of 29] by simp
  qed
  have calls: "fst (set_throttle (PyInt 100) (full_throttle 9)) = Inr ()"
    "fst (set_throttle (PyInt 100) (full_throttle 29)) = Inr ()"
    using full_throttle_completes[of 9] full_throttle_completes[of 29] by simp_all
  have nan: "in_bounds init ''RPM'' \<and> fst (set_throttle (PyFloat NaN) init) = Inr () \<and>
             \<not> in_bounds (snd (set_throttle (PyFloat NaN) init)) ''RPM''"
    by code_simp
  show ?thesis
    using t g speed_before speed_call speed_after coolant_before calls(1) coolant_after
      oil_before calls(2) oil_after nan
    by (simp only: simp_thms)
qed

text \<open>
  C1, amended: after any sequence of \<^verbatim>\<open>set_throttle\<close> and \<^verbatim>\<open>set_gear\<close> calls from
  construction in which no throttle argument is NaN, whatever else the arguments are and
  whether or not some of the calls raised, the stored values of RPM, ENGINE_LOAD,
  THROTTLE_POS, INTAKE_TEMP, MAF, FUEL_RATE and OIL_PRESSURE lie within the bounds of their
  channels. (The stored values of SPEED, COOLANT_TEMP and OIL_TEMP can leave theirs.)
\<close>

theorem bounded_channels_stay_in_bounds:
  assumes "list_all nan_free cs"
  shows "list_all (in_bounds (snd (run cs init))) bounded_channels"
  using op_inv_bounded[OF op_inv_run[OF op_inv_init assms]] .

theorem bounded_channels_stay_in_bounds_witness:
  "list_all nan_free [SetThrottle (PyFloat (Num 250)), SetGear (PyFloat NaN), SetGear (PyInt 9)] \<and>
   list_all (in_bounds (snd (run [SetThrottle (PyFloat (Num 250)), SetGear (PyFloat NaN), SetGear (PyInt 9)] init)))
     bounded_channels"
proof -
  have h: "list_all nan_free [SetThrottle (PyFloat (Num 250)), SetGear (PyFloat NaN), SetGear (PyInt 9)]"
    by simp
  show ?thesis
    using h bounded_channels_stay_in_bounds[OF h] by (rule conjI)
qed

subsection \<open>C2: the first tick at half throttle\<close>

text \<open>
  C2, as stated: from the freshly constructed model, one call \<^verbatim>\<open>set_throttle(50)\<close> leaves the
  stored RPM value equal to 825. It does not: the target is \<open>800 + 50 * 50 = 3300\<close>, not
  1050, and a tenth of the way from 800 to 3300 is 1050.
\<close>

theorem set_throttle_50_rpm_counterexample:
  "true_value (snd (set_throttle (PyInt 50) init)) ''RPM'' \<noteq> Some (Num 825)"
  by code_simp

text \<open>
  C2, amended: from the freshly constructed model, one call \<^verbatim>\<open>set_throttle(50)\<close>, with the
  integer or the float 50, completes and leaves the stored RPM value equal to 1050.
\<close>

theorem set_throttle_50_rpm:
  "fst (set_throttle (PyInt 50) init) = Inr () \<and>
   true_value (snd (set_throttle (PyInt 50) init)) ''RPM'' = Some (Num 1050) \<and>
   fst (set_throttle (PyFloat (Num 50)) init) = Inr () \<and>
   true_value (snd (set_throttle (PyFloat (Num 50)) init)) ''RPM'' = Some (Num 1050)"
  by code_simp

subsection \<open>C3: the stored gear\<close>

text \<open>
  C3, as stated: for every gear input \<open>g\<close>, the gear stored by \<^verbatim>\<open>set_gear(g)\<close> is \<open>g\<close> rounded
  to the nearest integer and then clamped to \<open>[1, 6]\<close>. For the float 2.7 the stored gear is
  2.7, not 3: \<^verbatim>\<open>set_gear\<close> clamps and does not round.
\<close>

theorem set_gear_rounding_counterexample:
  "gear (snd (set_gear (PyFloat (Num (27/10))) init)) = PyFloat (Num (27/10)) \<and>
   rint (27/10) = 3 \<and>
   num (gear (snd (set_gear (PyFloat (Num (27/10))) init))) \<noteq> Num (of_int (min (max (rint (27/10)) 1) 6))"
  by code_simp

text \<open>
  C3, amended: for every integer gear input \<open>i\<close>, the declared type of the parameter, the
  gear stored by \<^verbatim>\<open>set_gear(i)\<close> is \<open>i\<close> clamped to \<open>[1, 6]\<close>, which is also \<open>i\<close> rounded and
  clamped; a float input, NaN included, is stored as \<^verbatim>\<open>np.clip\<close> returns it: clamped to
  \<open>[1, 6]\<close> and not rounded. This holds from every state, and whether or not the
  recomputation pass that follows raises.
\<close>

theorem set_gear_stores_clipped:
  "gear (snd (set_gear (PyInt i) s)) = PyInt (min (max (rint (of_int i)) 1) 6) \<and>
   gear (snd (set_gear (PyFloat x) s)) = PyFloat (clip_float x (Num 1) (Num 6))"
  using update_sensors_keeps(1) by (simp add: set_gear_def keeps_def rint_of_int)

subsection \<open>C4: which calls raise\<close>

text \<open>
  C4, as stated: for every numeric input, \<^verbatim>\<open>set_throttle\<close> and \<^verbatim>\<open>set_gear\<close> complete without
  raising, the lookup in the table of gear ratios included. A float gear is clamped and
  stored as a float, and a list does not accept a float as an index: on the freshly
  constructed model \<^verbatim>\<open>set_gear(2.5)\<close> raises \<^verbatim>\<open>TypeError\<close>.
\<close>

theorem float_gear_raises:
  "fst (set_gear (PyFloat (Num (5/2))) init) = Inl TypeError"
  by code_simp

text \<open>
  C4, amended: in a model that has the channels of the pass and an integer stored gear that
  indexes the table (as the constructed model has), no call of a sequence of
  \<^verbatim>\<open>set_throttle\<close> calls with any number, integer or float, NaN included, and \<^verbatim>\<open>set_gear\<close>
  calls with any integer raises: out-of-range values are clamped, and every step of every
  pass succeeds.
\<close>

theorem typed_calls_never_raise:
  assumes "keys_present s" "gear_index_ok (gear s)" "list_all well_typed cs"
  shows "list_all (\<lambda>r. r = Inr ()) (fst (run cs s))"
  using assms by (rule well_typed_run)

theorem typed_calls_never_raise_witness:
  "keys_present init \<and> gear_index_ok (gear init) \<and>
   list_all well_typed
     [SetThrottle (PyFloat (Num 250)), SetGear (PyInt 9), SetThrottle (PyFloat NaN), SetThrottle (PyInt (- 3))] \<and>
   fst (run [SetThrottle (PyFloat (Num 250)), SetGear (PyInt 9), SetThrottle (PyFloat NaN), SetThrottle (PyInt (- 3))]
         init) =
     [Inr (), Inr (), Inr (), Inr ()]"
proof -
  let ?cs = "[SetThrottle (PyFloat (Num 250)), SetGear (PyInt 9), SetThrottle (PyFloat NaN), SetThrottle (PyInt (- 3))]"
  have h1: "keys_present init" by code_simp
  have h2: "gear_index_ok (gear init)" by code_simp
  have h3: "list_all well_typed ?cs" by simp
  have "length (fst (run ?cs init)) = 4"
    by (simp add: run_Cons del: run.simps(2))
  then show ?thesis
    using typed_calls_never_raise[OF h1 h2 h3] h1 h2 h3
    by (auto simp: run_Cons simp del: run.simps(2))
qed

subsection \<open>C5: a reading lies within the bounds\<close>




subsection \<open>C6: the mileage\<close>

text \<open>
  C6: across any sequence of ticks, from any state, the mileage does not decrease, whether
  or not some of the calls raised (a mileage that is NaN stays NaN); and a tick that
  completes with a recomputed speed \<open>v > 0\<close> adds \<open>v / 3600\<close> to the mileage, which
  therefore strictly increases, being a number.
\<close>

theorem mileage_monotone:
  "(mileage s \<le> mileage (snd (run cs s)) \<or>
      (mileage s = NaN \<and> mileage (snd (run cs s)) = NaN)) \<and>
   (fst (exec c s) = Inr () \<longrightarrow>
      (\<forall>v. true_value (snd (exec c s)) ''SPEED'' = Some v \<longrightarrow> Num 0 < v \<longrightarrow>
           mileage (snd (exec c s)) = mileage s + v / Num 3600 \<and>
           (mileage s \<noteq> NaN \<longrightarrow> mileage s < mileage (snd (exec c s)))))"
proof -
  have 1: "mileage s \<le> mileage (snd (run cs s)) \<or>
          (mileage s = NaN \<and> mileage (snd (run cs s)) = NaN)"
    using run_mileage_le[of s cs] by (simp only: not_below_def)
  have 2: "mileage (snd (exec c s)) = mileage s + v / Num 3600 \<and>
           (mileage s \<noteq> NaN \<longrightarrow> mileage s < mileage (snd (exec c s)))"
    if a: "fst (exec c s) = Inr ()" "true_value (snd (exec c s)) ''SPEED'' = Some v" "Num 0 < v"
    for v
  proof -
    have e: "mileage (snd (exec c s)) = mileage s + v / Num 3600"
      using exec_mileage_step[OF a(1,2)] a(3) by simp
    have "mileage s \<noteq> NaN \<longrightarrow> mileage s < mileage s + v / Num 3600"
      using mileage_strict[OF a(3)] by blast
    then show ?thesis using e by simp
  qed
  show ?thesis using 1 2 by blast
qed

theorem mileage_monotone_witness:
  "fst (exec (SetThrottle (PyInt 50)) init) = Inr () \<and>
   true_value (snd (exec (SetThrottle (PyInt 50)) init)) ''SPEED'' = Some (Num (63/2)) \<and>
   Num 0 < Num (63/2) \<and>
   mileage init = Num 45230 \<and> mileage init \<noteq> NaN \<and>
   mileage (snd (exec (SetThrottle (PyInt 50)) init)) = Num (45230 + (63/2) / 3600) \<and>
   mileage init < mileage (snd (exec (SetThrottle (PyInt 50)) init)) \<and>
   mileage init \<le> mileage (snd (run [SetGear (PyFloat (Num (5/2))), SetThrottle (PyInt 50)] init))"
proof -
  have h1: "fst (exec (SetThrottle (PyInt 50)) init) = Inr ()" by code_simp
  have h2: "true_value (snd (exec (SetThrottle (PyInt 50)) init)) ''SPEED'' = Some (Num (63/2))"
    by code_simp
  have h3: "mileage init = Num 45230" by (simp add: init_def)
  have h4: "Num 0 < Num (63/2)" by simp
  have h5: "mileage init \<noteq> NaN" by (simp add: init_def)
  note m = mileage_monotone[of init "[SetGear (PyFloat (Num (5/2))), SetThrottle (PyInt 50)]" "SetThrottle (PyInt 50)"]
  have a: "mileage init \<le> mileage (snd (run [SetGear (PyFloat (Num (5/2))), SetThrottle (PyInt 50)] init))"
    using m h5 by blast
  have "\<forall>v. true_value (snd (exec (SetThrottle (PyInt 50)) init)) ''SPEED'' = Some v \<longrightarrow> Num 0 < v \<longrightarrow>
           mileage (snd (exec (SetThrottle (PyInt 50)) init)) = mileage init + v / Num 3600 \<and>
           (mileage init \<noteq> NaN \<longrightarrow> mileage init < mileage (snd (exec (SetThrottle (PyInt 50)) init)))"
    using m h1 by blast
  then have b: "mileage (snd (exec (SetThrottle (PyInt 50)) init)) = mileage init + Num (63/2) / Num 3600 \<and>
           mileage init < mileage (snd (exec (SetThrottle (PyInt 50)) init))"
    using h2 h4 h5 by blast
  then have c: "mileage (snd (exec (SetThrottle (PyInt 50)) init)) = Num (45230 + (63/2) / 3600)"
    by (simp add: h3)
  have d: "mileage init < mileage (snd (exec (SetThrottle (PyInt 50)) init))"
    using b by (rule conjunct2)
  show ?thesis
    using h1 h2 h4 h3 h5 c d a by (intro conjI)
qed

subsection \<open>C7: determinism\<close>

text \<open>
  C7: two model instances with the same channel values, throttle, gear and mileage, which
  may differ in the bounds, noise levels and names of their channels, give, for the same
  sequence of \<^verbatim>\<open>set_throttle\<close> and \<^verbatim>\<open>set_gear\<close> calls, the same outcome of every call and
  the same channel values, throttle, gear and mileage at the end. A call takes no clock
  reading and no random draw, so nothing but the state and the arguments enters.
\<close>

theorem same_calls_same_results:
  assumes "core s1 = core s2"
  shows "fst (run cs s1) = fst (run cs s2) \<and> core (snd (run cs s1)) = core (snd (run cs s2))"
  using assms by (rule run_determined)

theorem same_calls_same_results_witness:
  "core init = core relabelled \<and>
   fst (run [SetThrottle (PyInt 50), SetGear (PyFloat (Num (5/2))), SetGear (PyInt 5)] init) =
   fst (run [SetThrottle (PyInt 50), SetGear (PyFloat (Num (5/2))), SetGear (PyInt 5)] relabelled) \<and>
   core (snd (run [SetThrottle (PyInt 50), SetGear (PyFloat (Num (5/2))), SetGear (PyInt 5)] init)) =
   core (snd (run [SetThrottle (PyInt 50), SetGear (PyFloat (Num (5/2))), SetGear (PyInt 5)] relabelled))"
proof -
  have h: "core init = core relabelled"
    by (simp add: relabelled_def core_def channel_values_def init_def mk_sensor_def)
  show ?thesis
    using h same_calls_same_results[OF h, of "[SetThrottle (PyInt 50), SetGear (PyFloat (Num (5/2))), SetGear (PyInt 5)]"]
    by (rule conjI)
qed

subsection \<open>C8: idling\<close>

text \<open>
  C8: from a state that has the channels of the pass and whose stored RPM value \<open>r\<close> is
  above 800, calling \<^verbatim>\<open>set_throttle(0)\<close> repeatedly leaves after \<open>n\<close> calls the RPM value
  \<open>800 + (r - 800) * 0.9 ^ n\<close>, which every further call strictly decreases and which stays
  above 800, and brings the RPM value within 1 of 800 after at most \<open>\<lceil>9 * (r - 800)\<rceil>\<close>
  calls, and after at most 83 calls when \<open>r\<close> is at most 7000, the upper bound of the
  channel. None of the calls raises when the stored gear is an integer that indexes the
  table of gear ratios.
\<close>

theorem idle_decay:
  assumes "keys_present s" "true_value s ''RPM'' = Some (Num r)" "800 < r"
  shows "(gear_index_ok (gear s) \<longrightarrow> list_all (\<lambda>x. x = Inr ()) (fst (run (idle n) s))) \<and>
         rpm_after_idle n s = Some (Num (800 + (r - 800) * (9/10) ^ n)) \<and>
         (\<exists>a b. rpm_after_idle n s = Some (Num a) \<and> rpm_after_idle (Suc n) s = Some (Num b) \<and>
                800 < b \<and> b < a \<and> a \<le> r) \<and>
         (\<forall>m \<ge> nat \<lceil>9 * (r - 800)\<rceil>. \<exists>a. rpm_after_idle m s = Some (Num a) \<and> 800 < a \<and> a < 801) \<and>
         (r \<le> 7000 \<longrightarrow> (\<forall>m \<ge> 83. \<exists>a. rpm_after_idle m s = Some (Num a) \<and> 800 < a \<and> a < 801))"
proof -
  let ?d = "r - 800"
  have d: "0 < ?d" using assms(3) by simp
  note closed = rpm_after_idle_closed[OF assms(1,2)]
  have pos: "0 < ?d * (9/10) ^ m" for m using d by simp
  have calls: "list_all (\<lambda>x. x = Inr ()) (fst (run (idle n) s))" if "gear_index_ok (gear s)"
    by (rule well_typed_run[OF assms(1) that]) (simp add: idle_def list_all_iff)
  have step: "?d * (9/10) ^ Suc n < ?d * (9/10) ^ n" using pos[of n] by simp
  have le: "?d * (9/10) ^ n \<le> ?d"
  proof -
    have "(9/10 :: real) ^ n \<le> 1" by (rule power_le_one) simp_all
    then show ?thesis using d by simp
  qed
  have mono: "\<exists>a b. rpm_after_idle n s = Some (Num a) \<and> rpm_after_idle (Suc n) s = Some (Num b) \<and>
                800 < b \<and> b < a \<and> a \<le> r"
    using closed[of n] closed[of "Suc n"] pos[of "Suc n"] step le by simp
  have near: "\<exists>a. rpm_after_idle m s = Some (Num a) \<and> 800 < a \<and> a < 801"
    if "nat \<lceil>9 * ?d\<rceil> \<le> m" for m
  proof -
    have "9 * ?d \<le> real_of_int \<lceil>9 * ?d\<rceil>" by (rule le_of_int_ceiling)
    also have "\<dots> \<le> real m" using that by linarith
    finally have "?d * (9/10) ^ m < 1" using decay_within_one[OF d] by blast
    then show ?thesis using closed[of m] pos[of m] by simp
  qed
  have near83: "\<exists>a. rpm_after_idle m s = Some (Num a) \<and> 800 < a \<and> a < 801"
    if "r \<le> 7000" "83 \<le> m" for m
  proof -
    have "?d \<le> 6200" using that(1) by simp
    then have "?d * (9/10) ^ m < 1" using decay_within_one_83[OF d _ that(2)] by blast
    then show ?thesis using closed[of m] pos[of m] by simp
  qed
  show ?thesis using calls closed[of n] mono near near83 by blast
qed

theorem idle_decay_witness:
  "keys_present (snd (set_throttle (PyInt 50) init)) \<and>
   gear_index_ok (gear (snd (set_throttle (PyInt 50) init))) \<and>
   true_value (snd (set_throttle (PyInt 50) init)) ''RPM'' = Some (Num 1050) \<and>
   (800::real) < 1050 \<and>
   rpm_after_idle 2 (snd (set_throttle (PyInt 50) init)) = Some (Num (2005/2)) \<and>
   list_all (\<lambda>x. x = Inr ()) (fst (run (idle 2) (snd (set_throttle (PyInt 50) init))))"
proof -
  have h1: "keys_present (snd (set_throttle (PyInt 50) init))" by code_simp
  have h2: "gear_index_ok (gear (snd (set_throttle (PyInt 50) init)))" by code_simp
  have h3: "true_value (snd (set_throttle (PyInt 50) init)) ''RPM'' = Some (Num 1050)" by code_simp
  have h4: "(800::real) < 1050" by simp
  note t = idle_decay[OF h1 h3 h4, of 2]
  have a: "list_all (\<lambda>x. x = Inr ()) (fst (run (idle 2) (snd (set_throttle (PyInt 50) init))))"
    using t h2 by blast
  have "rpm_after_idle 2 (snd (set_throttle (PyInt 50) init)) = Some (Num (800 + (1050 - 800) * (9/10) ^ 2))"
    using t by blast
  then have b: "rpm_after_idle 2 (snd (set_throttle (PyInt 50) init)) = Some (Num (2005/2))"
    by (simp add: power2_eq_square)
  show ?thesis using h1 h2 h3 h4 a b by (simp only: simp_thms)
qed

subsection \<open>C9: reading changes nothing in the model\<close>

text \<open>
  C9: \<^verbatim>\<open>read()\<close> on a channel and \<^verbatim>\<open>read_all_sensors()\<close> on the model leave the whole model
  as it was: every channel with its value, bounds and noise level, and the throttle, the
  gear and the mileage. Only the random generator and the clock advance.
\<close>

theorem reading_leaves_model_unchanged:
  "car (snd (read c w)) = car w \<and> car (snd (read_all_sensors w)) = car w"
  by (simp add: read_car read_items_car read_all_sensors_def)

subsection \<open>C10: the operating range of the RPM channel\<close>

text \<open>
  C10, as stated: starting from the freshly constructed model, after any sequence of
  \<^verbatim>\<open>set_throttle\<close> and \<^verbatim>\<open>set_gear\<close> calls the stored RPM value lies within \<open>[800, 5800]\<close>.
  \<^verbatim>\<open>np.clip\<close> returns NaN for NaN, so \<^verbatim>\<open>set_throttle(float('nan'))\<close> stores NaN as the
  throttle and as the RPM value, and the RPM value is still NaN after a later
  \<^verbatim>\<open>set_throttle(0)\<close>; both calls complete.
\<close>

theorem nan_throttle_rpm_counterexample:
  "fst (run [SetThrottle (PyFloat NaN), SetThrottle (PyInt 0)] init) = [Inr (), Inr ()] \<and>
   true_value (snd (run [SetThrottle (PyFloat NaN)] init)) ''RPM'' = Some NaN \<and>
   true_value (snd (run [SetThrottle (PyFloat NaN), SetThrottle (PyInt 0)] init)) ''RPM'' = Some NaN \<and>
   \<not> value_in 800 5800 (true_value (snd (run [SetThrottle (PyFloat NaN), SetThrottle (PyInt 0)] init)) ''RPM'')"
  by code_simp

text \<open>
  C10, amended: starting from the freshly constructed model, after any sequence of
  \<^verbatim>\<open>set_throttle\<close> and \<^verbatim>\<open>set_gear\<close> calls in which no throttle argument is NaN, whatever else
  the arguments are and whether or not some of the calls raised, the stored RPM value is a
  number within \<open>[800, 5800]\<close> and the stored speed is a number that is not negative.
\<close>

theorem rpm_stays_in_operating_range:
  assumes "list_all nan_free cs"
  shows "\<exists>r v. true_value (snd (run cs init)) ''RPM'' = Some (Num r) \<and> 800 \<le> r \<and> r \<le> 5800 \<and>
               true_value (snd (run cs init)) ''SPEED'' = Some (Num v) \<and> 0 \<le> v"
  using op_inv_run[OF op_inv_init assms]
  by (auto simp: op_inv_def value_in_iff)

theorem rpm_stays_in_operating_range_witness:
  "list_all nan_free [SetThrottle (PyInt 100), SetGear (PyFloat NaN), SetThrottle (PyFloat (Num (- 5)))] \<and>
   value_in 800 5800
     (true_value (snd (run [SetThrottle (PyInt 100), SetGear (PyFloat NaN), SetThrottle (PyFloat (Num (- 5)))] init))
        ''RPM'')"
proof -
  have h: "list_all nan_free [SetThrottle (PyInt 100), SetGear (PyFloat NaN), SetThrottle (PyFloat (Num (- 5)))]"
    by simp
  show ?thesis
    using h rpm_stays_in_operating_range[OF h] by (auto simp: value_in_iff)
qed

end
